theory Spec2Isabelle
  imports Complex_Main "HOL-Library.Multiset"
begin

section \<open>Decoded payloads and Python's dynamic operations\<close>

text \<open>
  A decoded JSON payload, as \<^verbatim>\<open>r.json()\<close> returns it. An object is the list of its items
  in order (its keys are distinct, as those of a Python dict are); a float is carried as
  the rational it denotes, since the flatteners copy numbers and never compute with them
  (the literals \<^verbatim>\<open>NaN\<close> and \<^verbatim>\<open>Infinity\<close>, which are not JSON, are left out).
\<close>

datatype pyval =
    PNone
  | PBool bool
  | PInt int
  | PFloat rat
  | PStr string
  | PList "pyval list"
  | PDict "(string \<times> pyval) list"

text \<open>The exceptions the modelled code can raise.\<close>

datatype py_error =
    AttributeError
  | TypeError
  | ValueError
  | RuntimeError
  | HTTPError
  | ConnectionError
  | JSONDecodeError
  | OverflowError
  | FileNotFoundError

fun and_then :: "py_error + 'a \<Rightarrow> ('a \<Rightarrow> py_error + 'b) \<Rightarrow> py_error + 'b" where
  "and_then (Inl e) f = Inl e"
| "and_then (Inr x) f = f x"

text \<open>A \<^verbatim>\<open>for\<close> loop whose body may raise: the first exception ends the loop.\<close>

fun for_each :: "('a \<Rightarrow> py_error + 'b) \<Rightarrow> 'a list \<Rightarrow> py_error + 'b list" where
  "for_each f [] = Inr []"
| "for_each f (x # xs) =
     and_then (f x) (\<lambda>y. and_then (for_each f xs) (\<lambda>ys. Inr (y # ys)))"

fun truthy :: "pyval \<Rightarrow> bool" where
  "truthy PNone = False"
| "truthy (PBool b) = b"
| "truthy (PInt i) = (i \<noteq> 0)"
| "truthy (PFloat x) = (x \<noteq> 0)"
| "truthy (PStr s) = (s \<noteq> [])"
| "truthy (PList xs) = (xs \<noteq> [])"
| "truthy (PDict kvs) = (kvs \<noteq> [])"

text \<open>\<^verbatim>\<open>x or y\<close> for a value \<open>y\<close>, and for an expression \<open>y\<close> that may raise.\<close>

definition py_or :: "pyval \<Rightarrow> pyval \<Rightarrow> pyval" where
  "py_or x y = (if truthy x then x else y)"

definition py_or_else :: "pyval \<Rightarrow> py_error + pyval \<Rightarrow> py_error + pyval" where
  "py_or_else x y = (if truthy x then Inr x else y)"

definition dict_lookup :: "(string \<times> pyval) list \<Rightarrow> string \<Rightarrow> pyval \<Rightarrow> pyval" where
  "dict_lookup kvs k dflt = (case map_of kvs k of None \<Rightarrow> dflt | Some v \<Rightarrow> v)"

text \<open>\<^verbatim>\<open>x.get(k, dflt)\<close>: only a dict has the method.\<close>

fun py_get :: "pyval \<Rightarrow> string \<Rightarrow> pyval \<Rightarrow> py_error + pyval" where
  "py_get (PDict kvs) k dflt = Inr (dict_lookup kvs k dflt)"
| "py_get _ k dflt = Inl AttributeError"

text \<open>
  \<^verbatim>\<open>for x in v\<close>: a list gives its items, a dict its keys, a string its characters
  (one-character strings; the flatteners only ever call \<^verbatim>\<open>.get\<close> on them, which
  raises); \<^verbatim>\<open>None\<close>, booleans and numbers are not iterable.
\<close>

fun py_iter :: "pyval \<Rightarrow> py_error + pyval list" where
  "py_iter (PList xs) = Inr xs"
| "py_iter (PDict kvs) = Inr (map (\<lambda>kv. PStr (fst kv)) kvs)"
| "py_iter (PStr s) = Inr (map (\<lambda>c. PStr [c]) s)"
| "py_iter _ = Inl TypeError"

text \<open>
  \<^verbatim>\<open>v[:6]\<close>: lists and strings can be sliced; a dict cannot (the exception is a
  TypeError before Python 3.12 and a KeyError from then on; the model says TypeError),
  nor can \<^verbatim>\<open>None\<close>, booleans and numbers.
\<close>

fun py_slice_to :: "nat \<Rightarrow> pyval \<Rightarrow> py_error + pyval" where
  "py_slice_to n (PList xs) = Inr (PList (take n xs))"
| "py_slice_to n (PStr s) = Inr (PStr (take n s))"
| "py_slice_to n _ = Inl TypeError"

fun isinstance_dict :: "pyval \<Rightarrow> bool" where
  "isinstance_dict (PDict kvs) = True"
| "isinstance_dict _ = False"

fun isinstance_list :: "pyval \<Rightarrow> bool" where
  "isinstance_list (PList xs) = True"
| "isinstance_list _ = False"

text \<open>\<^verbatim>\<open>isinstance(v, (str, int, float, bool)) or v is None\<close>.\<close>

fun is_simple :: "pyval \<Rightarrow> bool" where
  "is_simple (PList xs) = False"
| "is_simple (PDict kvs) = False"
| "is_simple _ = True"

text \<open>
  A row is a Python dict under construction: \<^verbatim>\<open>row[k] = v\<close> replaces the value of a key
  the row has, in place, and appends a new key.
\<close>

type_synonym row = "(string \<times> pyval) list"

fun row_set :: "row \<Rightarrow> string \<Rightarrow> pyval \<Rightarrow> row" where
  "row_set [] k v = [(k, v)]"
| "row_set ((k', v') # r) k v = (if k' = k then (k, v) # r else (k', v') # row_set r k v)"

definition row_update :: "row \<Rightarrow> row \<Rightarrow> row" where
  "row_update r items = foldl (\<lambda>acc kv. row_set acc (fst kv) (snd kv)) r items"

text \<open>\<^verbatim>\<open>str(n)\<close> of a natural number, for the f-strings.\<close>

definition digit_char :: "nat \<Rightarrow> char" where
  "digit_char d = ''0123456789'' ! (d mod 10)"

fun str_nat :: "nat \<Rightarrow> string" where
  "str_nat n = (if n < 10 then [digit_char n] else str_nat (n div 10) @ [digit_char (n mod 10)])"

declare str_nat.simps [simp del]

section \<open>Drift analysis (analyze\_history.py)\<close>

text \<open>
  \<^verbatim>\<open>compute_24h_forecast_drift\<close> works on three columns of the combined data frame:
  \<^verbatim>\<open>issue_date\<close>, \<^verbatim>\<open>valid_time\<close> and \<^verbatim>\<open>surf_mid\<close>. A pandas timestamp is its
  64-bit count of nanoseconds since the epoch (UTC), modelled as an integer with the
  bound written out where pandas checks it; a missing cell (NaT, NaN) is \<open>None\<close>. A
  float64 value is modelled by the rational it denotes. Subtraction of two float64
  values rounds, so it is not the subtraction of rationals: the float64 operations the
  code uses (\<^verbatim>\<open>-\<close> and \<^verbatim>\<open>mean\<close>) are parameters \<open>fsub\<close> and \<open>fmean\<close> of the model, of
  which a theorem assumes only what it says. Taking the absolute value does not round.
\<close>

record forecast_row =
  issue_date :: "int option"
  valid_time :: "int option"
  surf_mid :: "rat option"

text \<open>
  The frames the function is modelled on: a frame whose \<^verbatim>\<open>issue_date\<close> and
  \<^verbatim>\<open>valid_time\<close> columns have the dtype \<^verbatim>\<open>datetime64[ns, UTC]\<close>, as every frame that
  \<^verbatim>\<open>read_forecast_folder\<close> builds has, with any number of rows; and the empty frame built
  without dtypes (\<^verbatim>\<open>pd.DataFrame(columns=[...])\<close>), whose columns have the dtype
  \<^verbatim>\<open>object\<close>.
\<close>

datatype data_frame = Datetime_frame "forecast_row list" | Untyped_empty_frame

text \<open>A row of \<^verbatim>\<open>base\<close>: what \<^verbatim>\<open>dropna()\<close> keeps has all three cells.\<close>

record base_row =
  base_issue_date :: int
  base_valid_time :: int
  base_surf_mid :: rat

text \<open>A row of \<^verbatim>\<open>left\<close>: \<^verbatim>\<open>surf_mid\<close> renamed, \<^verbatim>\<open>next_issue_date\<close> added.\<close>

record left_row =
  left_issue_date :: int
  left_valid_time :: int
  left_surf_mid_D :: rat
  left_next_issue_date :: int

text \<open>
  A row of \<^verbatim>\<open>merged\<close>. The two \<^verbatim>\<open>issue_date\<close> columns get pandas' suffixes;
  \<^verbatim>\<open>valid_time\<close> is a join key on both sides and stays one column.
\<close>

record drift_pair =
  issue_date_x :: int
  pair_valid_time :: int
  surf_mid_D :: rat
  next_issue_date :: int
  issue_date_y :: int
  surf_mid_Dplus1 :: rat
  error :: rat
  abs_error :: rat
  hour :: int

definition Timedelta_days :: "int \<Rightarrow> int" where
  "Timedelta_days n = n * 86400000000000"

text \<open>The largest nanosecond count of a pandas timestamp.\<close>

definition int64_max :: int where
  "int64_max = 9223372036854775807"

definition complete_row :: "forecast_row \<Rightarrow> base_row option" where
  "complete_row r =
     (case issue_date r of None \<Rightarrow> None | Some i \<Rightarrow>
      (case valid_time r of None \<Rightarrow> None | Some v \<Rightarrow>
       (case surf_mid r of None \<Rightarrow> None | Some s \<Rightarrow>
          Some \<lparr>base_issue_date = i, base_valid_time = v, base_surf_mid = s\<rparr>)))"

definition dropna :: "forecast_row list \<Rightarrow> base_row list" where
  "dropna df = List.map_filter complete_row df"

text \<open>
  \<^verbatim>\<open>left["issue_date"] + pd.Timedelta(days=1)\<close>: pandas checks the addition and raises
  OverflowError when a sum passes the largest timestamp.
\<close>

definition left_row_of :: "base_row \<Rightarrow> left_row" where
  "left_row_of b =
     \<lparr>left_issue_date = base_issue_date b,
      left_valid_time = base_valid_time b,
      left_surf_mid_D = base_surf_mid b,
      left_next_issue_date = base_issue_date b + Timedelta_days 1\<rparr>"

definition make_left :: "base_row \<Rightarrow> py_error + left_row" where
  "make_left b =
     (if int64_max < base_issue_date b + Timedelta_days 1 then Inl OverflowError
      else Inr (left_row_of b))"

definition join_keys_equal :: "left_row \<Rightarrow> base_row \<Rightarrow> bool" where
  "join_keys_equal l r =
     (left_valid_time l = base_valid_time r \<and> left_next_issue_date l = base_issue_date r)"

text \<open>
  \<^verbatim>\<open>pd.merge(left, right, left_on=[...], right_on=[...], how="inner")\<close>: every left row
  with every right row of equal keys. The rows are listed left-major; the theorems below
  speak of the multiset of rows and of counts, so they do not rest on that order.
\<close>

definition merge_inner :: "left_row list \<Rightarrow> base_row list \<Rightarrow> (left_row \<times> base_row) list" where
  "merge_inner left right =
     concat (map (\<lambda>l. map (Pair l) (filter (join_keys_equal l) right)) left)"

definition dt_hour :: "int \<Rightarrow> int" where
  "dt_hour t = (t div 3600000000000) mod 24"

definition add_error_columns :: "(rat \<Rightarrow> rat \<Rightarrow> rat) \<Rightarrow> left_row \<times> base_row \<Rightarrow> drift_pair" where
  "add_error_columns fsub m =
     (let l = fst m; r = snd m; e = fsub (base_surf_mid r) (left_surf_mid_D l) in
      \<lparr>issue_date_x = left_issue_date l,
       pair_valid_time = left_valid_time l,
       surf_mid_D = left_surf_mid_D l,
       next_issue_date = left_next_issue_date l,
       issue_date_y = base_issue_date r,
       surf_mid_Dplus1 = base_surf_mid r,
       error = e,
       abs_error = \<bar>e\<bar>,
       hour = dt_hour (left_valid_time l)\<rparr>)"

text \<open>
  The function. On the empty frame without dtypes the key columns of \<^verbatim>\<open>left\<close> and
  \<^verbatim>\<open>right\<close> have different dtypes and \<^verbatim>\<open>pd.merge\<close> raises ValueError.
\<close>

definition compute_24h_forecast_drift ::
    "(rat \<Rightarrow> rat \<Rightarrow> rat) \<Rightarrow> data_frame \<Rightarrow> py_error + drift_pair list" where
  "compute_24h_forecast_drift fsub df =
     (case df of
        Untyped_empty_frame \<Rightarrow> Inl ValueError
      | Datetime_frame rows \<Rightarrow>
          (let base = dropna rows;
               right = base
           in and_then (for_each make_left base) (\<lambda>left.
                Inr (map (add_error_columns fsub) (merge_inner left right)))))"

text \<open>
  The script's report on the drift frame: the count of matched pairs, then the overall
  mean absolute error when the frame is not empty, and the "no overlap" line otherwise.
  An exception of \<^verbatim>\<open>compute_24h_forecast_drift\<close> ends the script.
\<close>

datatype report_line = Matched_pairs nat | Overall_MAE rat | No_overlapping_valid_times

definition main_drift_report :: "(rat list \<Rightarrow> rat) \<Rightarrow> drift_pair list \<Rightarrow> report_line list" where
  "main_drift_report fmean drift =
     Matched_pairs (length drift) #
     (if drift \<noteq> [] then [Overall_MAE (fmean (map abs_error drift))]
      else [No_overlapping_valid_times])"

definition main_drift_analysis ::
    "(rat \<Rightarrow> rat \<Rightarrow> rat) \<Rightarrow> (rat list \<Rightarrow> rat) \<Rightarrow> data_frame \<Rightarrow> py_error + report_line list" where
  "main_drift_analysis fsub fmean df_all =
     and_then (compute_24h_forecast_drift fsub df_all) (\<lambda>drift.
       Inr (main_drift_report fmean drift))"

text \<open>
  The specification's reading of a DriftPair, for comparison with the code: rows \<open>D\<close> and
  \<open>D1\<close> pair when all their cells are present, \<open>D1\<close> was issued exactly one day after
  \<open>D\<close> and both have the same valid time; the error is the float64 difference.
\<close>

definition spec_DriftPair ::
    "(rat \<Rightarrow> rat \<Rightarrow> rat) \<Rightarrow> forecast_row \<Rightarrow> forecast_row \<Rightarrow> drift_pair option" where
  "spec_DriftPair fsub D D1 =
     (case (issue_date D, valid_time D, surf_mid D) of
        (Some i, Some v, Some s) \<Rightarrow>
          (case (issue_date D1, valid_time D1, surf_mid D1) of
             (Some i1, Some v1, Some s1) \<Rightarrow>
               if i1 = i + Timedelta_days 1 \<and> v1 = v
               then Some \<lparr>issue_date_x = i, pair_valid_time = v, surf_mid_D = s,
                          next_issue_date = i + Timedelta_days 1, issue_date_y = i1,
                          surf_mid_Dplus1 = s1, error = fsub s1 s, abs_error = \<bar>fsub s1 s\<bar>,
                          hour = dt_hour v\<rparr>
               else None
           | _ \<Rightarrow> None)
      | _ \<Rightarrow> None)"

text \<open>
  Every issue date that the join uses (those of the rows with no missing cell) is at
  least one day below the largest timestamp.
\<close>

definition issue_dates_in_range :: "forecast_row list \<Rightarrow> bool" where
  "issue_dates_in_range rows =
     list_all (\<lambda>r. case complete_row r of None \<Rightarrow> True
                    | Some b \<Rightarrow> base_issue_date b + Timedelta_days 1 \<le> int64_max) rows"

text \<open>
  The pairing condition as the claim words it, on the keys alone: \<open>D1\<close> was issued one
  day after \<open>D\<close>, for the same valid time.
\<close>

definition keys_one_day_apart :: "forecast_row \<Rightarrow> forecast_row \<Rightarrow> bool" where
  "keys_one_day_apart D D1 =
     (case (issue_date D, valid_time D, issue_date D1, valid_time D1) of
        (Some i, Some v, Some i1, Some v1) \<Rightarrow> i1 = i + Timedelta_days 1 \<and> v1 = v
      | _ \<Rightarrow> False)"

definition count_key :: "int \<Rightarrow> int \<Rightarrow> forecast_row list \<Rightarrow> nat" where
  "count_key d t df =
     length (filter (\<lambda>r. issue_date r = Some d \<and> valid_time r = Some t) df)"

definition count_key_present :: "int \<Rightarrow> int \<Rightarrow> forecast_row list \<Rightarrow> nat" where
  "count_key_present d t df =
     length (filter (\<lambda>r. issue_date r = Some d \<and> valid_time r = Some t \<and> surf_mid r \<noteq> None) df)"

definition pairs_for_key :: "int \<Rightarrow> int \<Rightarrow> drift_pair list \<Rightarrow> drift_pair list" where
  "pairs_for_key d t ps = filter (\<lambda>p. issue_date_x p = d \<and> pair_valid_time p = t) ps"

section \<open>CSV helpers (surfline\_client.py)\<close>

definition first_list_in_data :: "pyval \<Rightarrow> py_error + pyval" where
  "first_list_in_data data =
     (case data of
        PDict kvs \<Rightarrow>
          (case filter isinstance_list (map snd kvs) of [] \<Rightarrow> Inr (PList []) | v # _ \<Rightarrow> Inr v)
      | _ \<Rightarrow> Inl AttributeError)"

definition flatten_simple_fields :: "pyval \<Rightarrow> string \<Rightarrow> py_error + row" where
  "flatten_simple_fields obj prefix =
     (case obj of
        PDict kvs \<Rightarrow>
          Inr (foldl (\<lambda>out kv. if is_simple (snd kv) then row_set out (prefix @ fst kv) (snd kv)
                                else out) [] kvs)
      | _ \<Rightarrow> Inl AttributeError)"

subsection \<open>SurfCSV\<close>

definition SurfCSV_point :: "pyval \<Rightarrow> py_error + row" where
  "SurfCSV_point point =
     and_then (py_get point ''timestamp'' PNone) (\<lambda>ts.
     and_then (py_get point ''surf'' PNone) (\<lambda>sb.
       let row0 = row_set [] ''timestamp'' ts;
           surf_block = py_or sb (PDict []);
           row1 = (case surf_block of
                     PDict kvs \<Rightarrow>
                       row_set (row_set (row_set row0
                         ''surf_min'' (dict_lookup kvs ''min'' PNone))
                         ''surf_max'' (dict_lookup kvs ''max'' PNone))
                         ''surf_humanRelation'' (dict_lookup kvs ''humanRelation'' PNone)
                   | _ \<Rightarrow> row0)
       in and_then (flatten_simple_fields point []) (\<lambda>fs. Inr (row_update row1 fs))))"

definition SurfCSV_flatten :: "pyval \<Rightarrow> py_error + row list" where
  "SurfCSV_flatten json_obj =
     and_then (py_get (py_or json_obj (PDict [])) ''data'' (PDict [])) (\<lambda>data.
     and_then (py_get data ''surf'' PNone) (\<lambda>s.
     and_then (py_or_else s (first_list_in_data data)) (\<lambda>series.
     and_then (py_iter (py_or series (PList []))) (\<lambda>points.
       for_each SurfCSV_point points))))"

subsection \<open>SwellsCSV\<close>

definition SwellsCSV_component :: "pyval \<Rightarrow> nat \<times> pyval \<Rightarrow> py_error + row" where
  "SwellsCSV_component ts c =
     and_then (flatten_simple_fields (snd c) ''swell_'') (\<lambda>fs.
       Inr (row_update [(''timestamp'', ts), (''component_index'', PInt (int (fst c)))] fs))"

definition SwellsCSV_point :: "pyval \<Rightarrow> py_error + row list" where
  "SwellsCSV_point point =
     and_then (py_get point ''timestamp'' PNone) (\<lambda>ts.
     and_then (py_get point ''swells'' PNone) (\<lambda>sw.
       let comps = py_or sw (PList []);
           comps = (case comps of PList xs \<Rightarrow> xs | _ \<Rightarrow> [])
       in for_each (SwellsCSV_component ts) (List.enumerate 1 comps)))"

definition SwellsCSV_flatten :: "pyval \<Rightarrow> py_error + row list" where
  "SwellsCSV_flatten json_obj =
     and_then (py_get (py_or json_obj (PDict [])) ''data'' (PDict [])) (\<lambda>data.
     and_then (py_get data ''swells'' PNone) (\<lambda>s.
     and_then (py_or_else s (first_list_in_data data)) (\<lambda>series.
     and_then (py_iter (py_or series (PList []))) (\<lambda>points.
     and_then (for_each SwellsCSV_point points) (\<lambda>rows. Inr (concat rows))))))"

subsection \<open>RatingCSV\<close>

definition RatingCSV_point :: "pyval \<Rightarrow> py_error + row" where
  "RatingCSV_point point =
     and_then (py_get point ''timestamp'' PNone) (\<lambda>ts.
     and_then (py_get point ''rating'' PNone) (\<lambda>rating_val.
     and_then
       (if isinstance_dict rating_val
        then and_then (flatten_simple_fields rating_val ''rating_'') (\<lambda>fs.
               Inr (row_update (row_set [] ''timestamp'' ts) fs))
        else if rating_val \<noteq> PNone
        then Inr (row_set (row_set [] ''timestamp'' ts) ''rating_value'' rating_val)
        else Inr (row_set [] ''timestamp'' ts)) (\<lambda>row1.
     and_then (flatten_simple_fields point []) (\<lambda>fs. Inr (row_update row1 fs)))))"

definition RatingCSV_flatten :: "pyval \<Rightarrow> py_error + row list" where
  "RatingCSV_flatten json_obj =
     and_then (py_get (py_or json_obj (PDict [])) ''data'' (PDict [])) (\<lambda>data.
     and_then (py_get data ''rating'' PNone) (\<lambda>s1.
     and_then (py_or_else s1 (py_get data ''ratings'' PNone)) (\<lambda>s2.
     and_then (py_or_else s2 (first_list_in_data data)) (\<lambda>series.
     and_then (py_iter (py_or series (PList []))) (\<lambda>points.
       for_each RatingCSV_point points)))))"

subsection \<open>SpectraCSV\<close>

definition SpectraCSV_bin :: "pyval \<Rightarrow> nat \<times> pyval \<Rightarrow> py_error + row list" where
  "SpectraCSV_bin ts c =
     (if \<not> isinstance_dict (snd c) then Inr []
      else and_then (flatten_simple_fields (snd c) ''bin_'') (\<lambda>fs.
             Inr [row_update [(''timestamp'', ts), (''bin_index'', PInt (int (fst c)))] fs]))"

definition SpectraCSV_point :: "pyval \<Rightarrow> py_error + row list" where
  "SpectraCSV_point point =
     (if \<not> isinstance_dict point then Inr []
      else
        and_then (py_get point ''timestamp'' PNone) (\<lambda>ts.
        and_then (py_get point ''bins'' PNone) (\<lambda>b1.
        and_then (py_or_else b1 (py_get point ''data'' PNone)) (\<lambda>b2.
          (case py_or b2 (PList []) of
             PList bins \<Rightarrow>
               and_then (for_each (SpectraCSV_bin ts) (List.enumerate 1 bins)) (\<lambda>rows.
                 Inr (concat rows))
           | _ \<Rightarrow> Inr [])))))"

definition SpectraCSV_flatten :: "pyval \<Rightarrow> py_error + row list" where
  "SpectraCSV_flatten json_obj =
     and_then (py_get (py_or json_obj (PDict [])) ''data'' (PDict [])) (\<lambda>data.
       if \<not> isinstance_dict data then Inr []
       else
         and_then (py_get data ''spectra'' PNone) (\<lambda>s.
         and_then (py_or_else s (first_list_in_data data)) (\<lambda>series.
           (case series of
              PList points \<Rightarrow>
                and_then (for_each SpectraCSV_point points) (\<lambda>rows. Inr (concat rows))
            | _ \<Rightarrow> Inr []))))"

subsection \<open>SunlightCSV, WindCSV, TidesCSV, RegionConditionsCSV\<close>

definition SunlightCSV_point :: "pyval \<Rightarrow> py_error + row" where
  "SunlightCSV_point point =
     and_then (py_get point ''timestamp'' PNone) (\<lambda>ts.
     and_then (flatten_simple_fields point []) (\<lambda>fs.
       Inr (row_update (row_set [] ''timestamp'' ts) fs)))"

definition SunlightCSV_flatten :: "pyval \<Rightarrow> py_error + row list" where
  "SunlightCSV_flatten json_obj =
     and_then (py_get (py_or json_obj (PDict [])) ''data'' (PDict [])) (\<lambda>data.
     and_then (py_get data ''sunlight'' PNone) (\<lambda>s.
     and_then (py_or_else s (first_list_in_data data)) (\<lambda>series.
     and_then (py_iter (py_or series (PList []))) (\<lambda>points.
       for_each SunlightCSV_point points))))"

definition WindCSV_point :: "pyval \<Rightarrow> py_error + row" where
  "WindCSV_point point =
     and_then (py_get point ''timestamp'' PNone) (\<lambda>ts.
     and_then (flatten_simple_fields point []) (\<lambda>fs.
       Inr (row_update [(''timestamp'', ts)] fs)))"

definition WindCSV_flatten :: "pyval \<Rightarrow> py_error + row list" where
  "WindCSV_flatten json_obj =
     and_then (py_get (py_or json_obj (PDict [])) ''data'' (PDict [])) (\<lambda>data.
     and_then (py_get data ''wind'' PNone) (\<lambda>s1.
     and_then (py_or_else s1 (py_get data ''windModel'' PNone)) (\<lambda>s2.
     and_then (py_or_else s2 (first_list_in_data data)) (\<lambda>series.
     and_then (py_iter (py_or series (PList []))) (\<lambda>points.
       for_each WindCSV_point points)))))"

definition TidesCSV_point :: "pyval \<Rightarrow> py_error + row" where
  "TidesCSV_point t =
     and_then (py_get t ''timestamp'' PNone) (\<lambda>ts.
     and_then (py_get t ''type'' PNone) (\<lambda>ty.
     and_then (py_get t ''height'' PNone) (\<lambda>h.
     and_then (flatten_simple_fields t []) (\<lambda>fs.
       Inr (row_update [(''timestamp'', ts), (''type'', ty), (''height'', h)] fs)))))"

definition TidesCSV_flatten :: "pyval \<Rightarrow> py_error + row list" where
  "TidesCSV_flatten json_obj =
     and_then (py_get (py_or json_obj (PDict [])) ''data'' (PDict [])) (\<lambda>data.
     and_then (py_get data ''tides'' (PList [])) (\<lambda>s.
     and_then (py_iter (py_or s (PList []))) (\<lambda>series.
       for_each TidesCSV_point series)))"

definition RegionConditionsCSV_point :: "pyval \<Rightarrow> py_error + row" where
  "RegionConditionsCSV_point c =
     and_then (py_get c ''timestamp'' PNone) (\<lambda>ts.
     and_then (flatten_simple_fields c []) (\<lambda>fs.
     and_then (py_get c ''weather'' PNone) (\<lambda>w.
       let row1 = row_update [(''timestamp'', ts)] fs;
           weather = py_or w (PDict [])
       in if isinstance_dict weather
          then and_then (flatten_simple_fields weather ''weather_'') (\<lambda>ws.
                 Inr (row_update row1 ws))
          else Inr row1)))"

definition RegionConditionsCSV_flatten :: "pyval \<Rightarrow> py_error + row list" where
  "RegionConditionsCSV_flatten json_obj =
     and_then (py_get (py_or json_obj (PDict [])) ''data'' (PDict [])) (\<lambda>data.
     and_then (py_get data ''conditions'' PNone) (\<lambda>s.
     and_then (py_or_else s (first_list_in_data data)) (\<lambda>series.
     and_then (py_iter (py_or series (PList []))) (\<lambda>points.
       for_each RegionConditionsCSV_point points))))"

section \<open>WaveCSV (surfline\_api\_class.py)\<close>

text \<open>A loop that updates one row and may raise.\<close>

fun fold_each :: "('s \<Rightarrow> 'a \<Rightarrow> py_error + 's) \<Rightarrow> 'a list \<Rightarrow> 's \<Rightarrow> py_error + 's" where
  "fold_each f [] s = Inr s"
| "fold_each f (x # xs) s = and_then (f s x) (fold_each f xs)"

definition WaveCSV_swell :: "row \<Rightarrow> nat \<times> pyval \<Rightarrow> py_error + row" where
  "WaveCSV_swell r c =
     and_then (py_get (snd c) ''height'' PNone) (\<lambda>h.
     and_then (py_get (snd c) ''period'' PNone) (\<lambda>p.
     and_then (py_get (snd c) ''direction'' PNone) (\<lambda>d.
       Inr (row_set (row_set (row_set r
              (''swell'' @ str_nat (fst c) @ ''_height_m'') h)
              (''swell'' @ str_nat (fst c) @ ''_period_s'') p)
              (''swell'' @ str_nat (fst c) @ ''_direction_deg'') d))))"

definition WaveCSV_point :: "pyval \<Rightarrow> py_error + row" where
  "WaveCSV_point point =
     and_then (py_get point ''timestamp'' PNone) (\<lambda>ts.
     and_then (py_get point ''surf'' PNone) (\<lambda>sb1.
     and_then (py_get (py_or sb1 (PDict [])) ''min'' PNone) (\<lambda>smin.
     and_then (py_get point ''surf'' PNone) (\<lambda>sb2.
     and_then (py_get (py_or sb2 (PDict [])) ''max'' PNone) (\<lambda>smax.
     and_then (py_get point ''swells'' (PList [])) (\<lambda>sw.
     and_then (py_slice_to 6 (py_or sw (PList []))) (\<lambda>first6.
     and_then (py_iter first6) (\<lambda>swells.
       fold_each WaveCSV_swell (List.enumerate 1 swells)
         [(''timestamp'', ts), (''surf_min'', smin), (''surf_max'', smax)]))))))))"

definition WaveCSV_flatten :: "pyval \<Rightarrow> py_error + row list" where
  "WaveCSV_flatten json_obj =
     and_then (py_get (py_or json_obj (PDict [])) ''data'' (PDict [])) (\<lambda>data.
     and_then (py_get data ''wave'' PNone) (\<lambda>s1.
     and_then (py_or_else s1 (py_get data ''waveModel'' PNone)) (\<lambda>s2.
     and_then (py_iter (py_or s2 (PList []))) (\<lambda>series.
       for_each WaveCSV_point series))))"

section \<open>Writing rows (both modules)\<close>

text \<open>
  The part of the outside world the writers and the harvest loop touch: the files by
  path, the directories made, the lines printed, the forecast requests issued and the
  pauses taken. A printed line is kept as a message with its arguments.
\<close>

datatype kind = Surf | Swells | Rating | Spectra | Sunlight | Wind | Tides | Conditions

datatype message =
    Warn_no_rows string
  | Ok_wrote nat string
  | Info_fetching string
  | Err_fetch_failed kind string py_error
  | Info_sleeping

record csv_file =
  fieldnames :: "string list"
  csv_rows :: "row list"

record world =
  files :: "string \<Rightarrow> csv_file option"
  dirs :: "string set"
  stdout :: "message list"
  stderr :: "message list"
  api_calls :: "(kind \<times> int) list"
  sleeps :: "rat list"

text \<open>The union of the rows' keys, in first-seen order.\<close>

definition collect_fieldnames :: "row list \<Rightarrow> string list" where
  "collect_fieldnames rows =
     foldl (\<lambda>names r. foldl (\<lambda>names k. if k \<in> set names then names else names @ [k])
                          names (map fst r)) [] rows"

text \<open>\<^verbatim>\<open>os.path.dirname\<close> and \<^verbatim>\<open>os.path.join\<close> of two parts, on POSIX paths.\<close>

definition rstrip_slash :: "string \<Rightarrow> string" where
  "rstrip_slash s = rev (dropWhile (\<lambda>c. c = CHR ''/'') (rev s))"

definition dirname :: "string \<Rightarrow> string" where
  "dirname p =
     (let head = rev (dropWhile (\<lambda>c. c \<noteq> CHR ''/'') (rev p))
      in if head \<noteq> [] \<and> \<not> list_all (\<lambda>c. c = CHR ''/'') head then rstrip_slash head else head)"

definition path_join :: "string \<Rightarrow> string \<Rightarrow> string" where
  "path_join a b =
     (if b \<noteq> [] \<and> hd b = CHR ''/'' then b
      else if a = [] \<or> last a = CHR ''/'' then a @ b
      else a @ ''/'' @ b)"

text \<open>\<^verbatim>\<open>_write_dict_rows\<close> of surfline\_client.py.\<close>

definition write_dict_rows :: "row list \<Rightarrow> string \<Rightarrow> world \<Rightarrow> world" where
  "write_dict_rows rows path w =
     (if rows = [] then w\<lparr>stderr := stderr w @ [Warn_no_rows path]\<rparr>
      else
        let names = collect_fieldnames rows;
            folder = dirname path;
            w1 = (if folder \<noteq> [] then w\<lparr>dirs := insert folder (dirs w)\<rparr> else w);
            w2 = w1\<lparr>files := (files w1)(path \<mapsto> \<lparr>fieldnames = names, csv_rows = rows\<rparr>)\<rparr>
        in w2\<lparr>stdout := stdout w2 @ [Ok_wrote (length rows) path]\<rparr>)"

text \<open>
  \<^verbatim>\<open>WaveCSV._write_dict_rows\<close> of surfline\_api\_class.py: the same without the
  \<^verbatim>\<open>os.makedirs\<close> call, so \<^verbatim>\<open>open(path, "w")\<close> raises FileNotFoundError when the
  folder of the path does not exist (\<open>dirs\<close> holds the folders that do).
\<close>

definition WaveCSV_write_dict_rows :: "row list \<Rightarrow> string \<Rightarrow> world \<Rightarrow> py_error + world" where
  "WaveCSV_write_dict_rows rows path w =
     (if rows = [] then Inr (w\<lparr>stderr := stderr w @ [Warn_no_rows path]\<rparr>)
      else
        let names = collect_fieldnames rows
        in if dirname path \<noteq> [] \<and> dirname path \<notin> dirs w then Inl FileNotFoundError
           else
             let w2 = w\<lparr>files := (files w)(path \<mapsto> \<lparr>fieldnames = names, csv_rows = rows\<rparr>)\<rparr>
             in Inr (w2\<lparr>stdout := stdout w2 @ [Ok_wrote (length rows) path]\<rparr>))"

section \<open>Dates and file names\<close>

text \<open>
  A calendar date, and \<^verbatim>\<open>strftime\<close> with the two formats the harvest loop uses.
  \<^verbatim>\<open>%m\<close> and \<^verbatim>\<open>%d\<close> are two digits, zero-padded. \<^verbatim>\<open>%Y\<close> is the year in decimal
  as the C library prints it: glibc does not pad it, so a year below 1000 has fewer
  than four digits.
\<close>

record date =
  year :: nat
  month :: nat
  day :: nat

definition pad2 :: "nat \<Rightarrow> string" where
  "pad2 n = [digit_char (n div 10 mod 10), digit_char (n mod 10)]"

text \<open>\<^verbatim>\<open>"%Y-%m-%d"\<close> and \<^verbatim>\<open>"%Y%m%d"\<close>.\<close>

definition strftime_Y_m_d :: "date \<Rightarrow> string" where
  "strftime_Y_m_d d = str_nat (year d) @ ''-'' @ pad2 (month d) @ ''-'' @ pad2 (day d)"

definition strftime_Ymd :: "date \<Rightarrow> string" where
  "strftime_Ymd d = str_nat (year d) @ pad2 (month d) @ pad2 (day d)"

text \<open>
  The tag of the names that the docstring of \<^verbatim>\<open>_parse_issue_date_from_name\<close> gives,
  \<^verbatim>\<open>forecast_wave_YYMMDD.csv\<close>: two digits each of the year within its century, the
  month and the day. No script of the repository that runs writes such a name
  (surfline\_hb\_northside.py, which would, stops at its import of \<^verbatim>\<open>WaveCSV\<close> from
  surfline\_client); the tag is written here from the docstring, for stating what the
  parser inverts.
\<close>

definition tag_YYMMDD :: "date \<Rightarrow> string" where
  "tag_YYMMDD d = pad2 (year d mod 100) @ pad2 (month d) @ pad2 (day d)"

definition is_leap :: "nat \<Rightarrow> bool" where
  "is_leap y = (y mod 4 = 0 \<and> (y mod 100 \<noteq> 0 \<or> y mod 400 = 0))"

definition days_in_month :: "nat \<Rightarrow> nat \<Rightarrow> nat" where
  "days_in_month y m =
     (if m = 2 then (if is_leap y then 29 else 28)
      else if m = 4 \<or> m = 6 \<or> m = 9 \<or> m = 11 then 30 else 31)"

definition valid_date :: "date \<Rightarrow> bool" where
  "valid_date d =
     (1 \<le> year d \<and> year d \<le> 9999 \<and> 1 \<le> month d \<and> month d \<le> 12 \<and>
      1 \<le> day d \<and> day d \<le> days_in_month (year d) (month d))"

text \<open>
  \<^verbatim>\<open>pd.Timestamp(year=..., month=..., day=..., tz="UTC")\<close>: midnight UTC of the day, or a
  ValueError when there is no such day.
\<close>

definition Timestamp :: "nat \<Rightarrow> nat \<Rightarrow> nat \<Rightarrow> py_error + date" where
  "Timestamp y m d =
     (if valid_date \<lparr>year = y, month = m, day = d\<rparr> then Inr \<lparr>year = y, month = m, day = d\<rparr>
      else Inl ValueError)"

definition isdigit_char :: "char \<Rightarrow> bool" where
  "isdigit_char c = (c \<in> set ''0123456789'')"

text \<open>\<^verbatim>\<open>int(s)\<close> of a string of decimal digits.\<close>

definition int_of_digits :: "string \<Rightarrow> nat" where
  "int_of_digits s = foldl (\<lambda>n c. 10 * n + (of_char c - 48)) 0 s"

text \<open>
  \<^verbatim>\<open>_parse_issue_date_from_name\<close>. The pattern \<^verbatim>\<open>forecast_wave_(\d{6})\.csv$\<close> is
  searched for, so it matches exactly when the name (less one final newline, where
  \<^verbatim>\<open>$\<close> also matches) ends with \<^verbatim>\<open>forecast_wave_\<close>, six digits and \<^verbatim>\<open>.csv\<close>.
\<close>

definition parse_issue_date_from_name :: "string \<Rightarrow> py_error + date" where
  "parse_issue_date_from_name filename =
     (let s = (if filename \<noteq> [] \<and> last filename = CHR 0x0A then butlast filename
               else filename);
          n = length s;
          g = take 6 (drop (n - 10) s)
      in if 24 \<le> n \<and> drop (n - 4) s = ''.csv'' \<and> list_all isdigit_char g
            \<and> take 14 (drop (n - 24) s) = ''forecast_wave_''
         then Timestamp (2000 + int_of_digits (take 2 g))
                (int_of_digits (take 2 (drop 2 g))) (int_of_digits (drop 4 g))
         else Inl ValueError)"

fun kind_name :: "kind \<Rightarrow> string" where
  "kind_name Surf = ''surf''"
| "kind_name Swells = ''swells''"
| "kind_name Rating = ''rating''"
| "kind_name Spectra = ''spectra''"
| "kind_name Sunlight = ''sunlight''"
| "kind_name Wind = ''wind''"
| "kind_name Tides = ''tides''"
| "kind_name Conditions = ''conditions''"

text \<open>The file name the harvest loop gives a series kind on an issue date.\<close>

definition harvest_file_name :: "string \<Rightarrow> kind \<Rightarrow> date \<Rightarrow> string" where
  "harvest_file_name spot_slug k cur =
     spot_slug @ ''_'' @ kind_name k @ ''_'' @ strftime_Ymd cur @ ''.csv''"

section \<open>The harvest loop (fetch\_forecast\_history.py)\<close>

text \<open>
  The loop of \<^verbatim>\<open>harvest_forecasts_for_range\<close>. A date of the loop is the number of
  its day, its proleptic Gregorian ordinal (dates compare as their ordinals do, and
  \<^verbatim>\<open>cur += timedelta(days=1)\<close> adds one, raising OverflowError past the last date,
  9999-12-31); \<open>civil\<close> gives the calendar date of an ordinal, for the strings. What
  a forecast request returns or raises is not decided by this program: \<open>api k cur\<close>
  stands for the outcome of the request for series kind \<open>k\<close> with the start date
  \<open>cur\<close>, retries included. The spot slug and the output folder come from the
  function's prologue and are taken as given.
\<close>

record harvest_args =
  api :: "kind \<Rightarrow> int \<Rightarrow> py_error + pyval"
  civil :: "int \<Rightarrow> date"
  base_folder :: string
  spot_slug :: string
  subregion_id :: "string option"

definition SLEEP_BETWEEN_DAYS :: rat where
  "SLEEP_BETWEEN_DAYS = 10"

fun flatten_kind :: "kind \<Rightarrow> pyval \<Rightarrow> py_error + row list" where
  "flatten_kind Surf = SurfCSV_flatten"
| "flatten_kind Swells = SwellsCSV_flatten"
| "flatten_kind Rating = RatingCSV_flatten"
| "flatten_kind Spectra = SpectraCSV_flatten"
| "flatten_kind Sunlight = SunlightCSV_flatten"
| "flatten_kind Wind = WindCSV_flatten"
| "flatten_kind Tides = TidesCSV_flatten"
| "flatten_kind Conditions = RegionConditionsCSV_flatten"

text \<open>
  One \<^verbatim>\<open>try\<close> block of the loop body: request, flatten, write; \<^verbatim>\<open>except Exception\<close>
  prints the failure and goes on.
\<close>

definition harvest_series :: "harvest_args \<Rightarrow> int \<Rightarrow> world \<Rightarrow> kind \<Rightarrow> world" where
  "harvest_series a cur w k =
     (let w1 = w\<lparr>api_calls := api_calls w @ [(k, cur)]\<rparr>;
          path = path_join (base_folder a) (harvest_file_name (spot_slug a) k (civil a cur))
      in case and_then (api a k cur) (flatten_kind k) of
           Inl e \<Rightarrow> w1\<lparr>stderr := stderr w1 @ [Err_fetch_failed k (strftime_Y_m_d (civil a cur)) e]\<rparr>
         | Inr rows \<Rightarrow> write_dict_rows rows path w1)"

text \<open>
  The series kinds of one day, in the order of the loop body; the regional conditions
  only when a subregion id is given.
\<close>

definition series_kinds :: "string option \<Rightarrow> kind list" where
  "series_kinds subregion =
     [Surf, Swells, Rating, Spectra, Sunlight, Wind, Tides] @
     (case subregion of None \<Rightarrow> [] | Some s \<Rightarrow> if s \<noteq> [] then [Conditions] else [])"

definition harvest_day :: "harvest_args \<Rightarrow> int \<Rightarrow> world \<Rightarrow> world" where
  "harvest_day a cur w =
     (let w0 = w\<lparr>stdout := stdout w @ [Info_fetching (strftime_Y_m_d (civil a cur))]\<rparr>;
          w1 = foldl (harvest_series a cur) w0 (series_kinds (subregion_id a))
      in if SLEEP_BETWEEN_DAYS > 0
         then w1\<lparr>stdout := stdout w1 @ [Info_sleeping], sleeps := sleeps w1 @ [SLEEP_BETWEEN_DAYS]\<rparr>
         else w1)"

text \<open>The ordinal of \<^verbatim>\<open>date.max\<close>, 9999-12-31.\<close>

definition date_max_ordinal :: int where
  "date_max_ordinal = 3652059"

text \<open>
  The \<^verbatim>\<open>while cur <= end\<close> loop. Its result is the world as the loop leaves it, with
  the exception that ended it, if one did: what was written stays written.
\<close>

function harvest_loop :: "harvest_args \<Rightarrow> int \<Rightarrow> int \<Rightarrow> world \<Rightarrow> world \<times> py_error option" where
  "harvest_loop a cur end_day w =
     (if cur \<le> end_day
      then (let w1 = harvest_day a cur w
            in if date_max_ordinal < cur + 1 then (w1, Some OverflowError)
               else harvest_loop a (cur + 1) end_day w1)
      else (w, None))"
  by pat_completeness auto
termination
  by (relation "measure (\<lambda>(a, cur, end_day, w). nat (end_day - cur + 1))") auto

declare harvest_loop.simps [simp del]

text \<open>The (series kind, day) pairs of an inclusive range of days, in the loop's order.\<close>

definition range_requests :: "string option \<Rightarrow> int \<Rightarrow> int \<Rightarrow> (kind \<times> int) list" where
  "range_requests subregion start_day end_day =
     concat (map (\<lambda>d. map (\<lambda>k. (k, d)) (series_kinds subregion)) [start_day..end_day])"

text \<open>
  What one (series kind, day) pair of the range comes to, for stating what the loop
  leaves behind: the outcome of its request and flattening, the path of its file, the
  change it makes to the files, and the lines it prints on the error stream.
\<close>

definition series_outcome :: "harvest_args \<Rightarrow> kind \<times> int \<Rightarrow> py_error + row list" where
  "series_outcome a kd = and_then (api a (fst kd) (snd kd)) (flatten_kind (fst kd))"

definition series_path :: "harvest_args \<Rightarrow> kind \<times> int \<Rightarrow> string" where
  "series_path a kd =
     path_join (base_folder a) (harvest_file_name (spot_slug a) (fst kd) (civil a (snd kd)))"

definition series_file ::
    "harvest_args \<Rightarrow> (string \<Rightarrow> csv_file option) \<Rightarrow> kind \<times> int \<Rightarrow> (string \<Rightarrow> csv_file option)" where
  "series_file a fs kd =
     (case series_outcome a kd of
        Inl e \<Rightarrow> fs
      | Inr rows \<Rightarrow>
          if rows = [] then fs
          else fs(series_path a kd \<mapsto> \<lparr>fieldnames = collect_fieldnames rows, csv_rows = rows\<rparr>))"

definition series_error_lines :: "harvest_args \<Rightarrow> kind \<times> int \<Rightarrow> message list" where
  "series_error_lines a kd =
     (case series_outcome a kd of
        Inl e \<Rightarrow> [Err_fetch_failed (fst kd) (strftime_Y_m_d (civil a (snd kd))) e]
      | Inr rows \<Rightarrow> if rows = [] then [Warn_no_rows (series_path a kd)] else [])"

section \<open>The rate-limit aware request (surfline\_client.py)\<close>

text \<open>
  What one call of \<^verbatim>\<open>self.session.get(...)\<close> followed by \<^verbatim>\<open>raise_for_status()\<close> and
  \<^verbatim>\<open>json()\<close> comes to: a decoded payload, an HTTPError (with the response, when the
  exception carries one) or another exception. Of a response the code reads the status
  and the \<^verbatim>\<open>Retry-After\<close> header. A header value is a string of Latin-1 characters,
  as the HTTP library decodes it, one \<open>char\<close> each.
\<close>

record http_response =
  status_code :: nat
  retry_after :: "string option"

datatype get_outcome =
    Returns pyval
  | Raises_HTTPError "http_response option"
  | Raises py_error

record get_result =
  outcome :: "py_error + pyval"
  attempts :: nat
  slept :: "rat list"

definition max_attempts :: nat where
  "max_attempts = 5"

definition base_sleep :: rat where
  "base_sleep = 5"

text \<open>
  \<^verbatim>\<open>str.isdigit()\<close>: the string is not empty and each character is a digit. Among the
  Latin-1 characters these are the decimal digits and the superscripts two, three and
  one (U+00B2, U+00B3, U+00B9).
\<close>

definition isdigit_latin1 :: "char \<Rightarrow> bool" where
  "isdigit_latin1 c = (isdigit_char c \<or> c = CHR 0xB2 \<or> c = CHR 0xB3 \<or> c = CHR 0xB9)"

definition str_isdigit :: "string \<Rightarrow> bool" where
  "str_isdigit s = (s \<noteq> [] \<and> list_all isdigit_latin1 s)"

text \<open>
  \<^verbatim>\<open>int(s)\<close> for a string that passed \<^verbatim>\<open>isdigit()\<close>: the value when every character
  is a decimal digit, a ValueError on a superscript digit, and (CPython 3.11 and later)
  a ValueError on more than 4300 digits.
\<close>

definition int_max_str_digits :: nat where
  "int_max_str_digits = 4300"

definition py_int :: "string \<Rightarrow> py_error + nat" where
  "py_int s =
     (if list_all isdigit_char s \<and> length s \<le> int_max_str_digits then Inr (int_of_digits s)
      else Inl ValueError)"

text \<open>
  \<^verbatim>\<open>time.sleep(wait)\<close> takes a pause of at most \<open>2\<^sup>6\<^sup>3 - 1\<close> nanoseconds, the
  largest whole number of seconds being 9223372036, and raises OverflowError on a
  longer one.
\<close>

definition sleep_max :: rat where
  "sleep_max = 9223372036"

definition time_sleep :: "rat \<Rightarrow> py_error + unit" where
  "time_sleep secs = (if sleep_max < secs then Inl OverflowError else Inr ())"

text \<open>The pause after a 429 on the given attempt, or the exception of computing it.\<close>

definition rate_limit_wait :: "http_response option \<Rightarrow> nat \<Rightarrow> py_error + rat" where
  "rate_limit_wait response attempt =
     (let retry_after_hdr = (case response of None \<Rightarrow> None | Some r \<Rightarrow> retry_after r)
      in case retry_after_hdr of
           Some h \<Rightarrow> if h \<noteq> [] \<and> str_isdigit h
                     then and_then (py_int h) (\<lambda>n. Inr (of_nat n))
                     else Inr (base_sleep * of_nat attempt)
         | None \<Rightarrow> Inr (base_sleep * of_nat attempt))"

text \<open>
  The \<^verbatim>\<open>for attempt in range(1, max_attempts + 1)\<close> loop. \<open>session n\<close> is the outcome of
  the request made on attempt \<open>n\<close>; the result records the attempts made and the pauses
  taken with what \<^verbatim>\<open>_get\<close> returns or raises. An exception raised inside the handler of
  the 429, by \<^verbatim>\<open>int\<close> or by \<^verbatim>\<open>time.sleep\<close>, leaves \<^verbatim>\<open>_get\<close>.
\<close>

fun get_attempts :: "(nat \<Rightarrow> get_outcome) \<Rightarrow> nat list \<Rightarrow> get_result \<Rightarrow> get_result" where
  "get_attempts session [] acc = acc\<lparr>outcome := Inl RuntimeError\<rparr>"
| "get_attempts session (attempt # rest) acc =
     (let acc1 = acc\<lparr>attempts := attempts acc + 1\<rparr>
      in case session attempt of
           Returns j \<Rightarrow> acc1\<lparr>outcome := Inr j\<rparr>
         | Raises_HTTPError response \<Rightarrow>
             (if map_option status_code response = Some 429
              then (case and_then (rate_limit_wait response attempt) (\<lambda>wait.
                            and_then (time_sleep wait) (\<lambda>u. Inr wait)) of
                      Inl e \<Rightarrow> acc1\<lparr>outcome := Inl e\<rparr>
                    | Inr wait \<Rightarrow>
                        get_attempts session rest (acc1\<lparr>slept := slept acc1 @ [wait]\<rparr>))
              else acc1\<lparr>outcome := Inl HTTPError\<rparr>)
         | Raises e \<Rightarrow> acc1\<lparr>outcome := Inl e\<rparr>)"

definition SurflineAPI_get :: "(nat \<Rightarrow> get_outcome) \<Rightarrow> get_result" where
  "SurflineAPI_get session =
     get_attempts session [1..<max_attempts + 1]
       \<lparr>outcome = Inl RuntimeError, attempts = 0, slept = []\<rparr>"

text \<open>Every response is a 429, on the attempts the loop can make.\<close>

definition all_429 :: "(nat \<Rightarrow> get_outcome) \<Rightarrow> bool" where
  "all_429 session =
     list_all (\<lambda>n. case session n of
                      Raises_HTTPError (Some r) \<Rightarrow> status_code r = 429
                    | _ \<Rightarrow> False) [1..<max_attempts + 1]"

text \<open>No response, on those attempts, carries a \<^verbatim>\<open>Retry-After\<close> header.\<close>

definition no_retry_after :: "(nat \<Rightarrow> get_outcome) \<Rightarrow> bool" where
  "no_retry_after session =
     list_all (\<lambda>n. case session n of
                      Raises_HTTPError (Some r) \<Rightarrow> retry_after r = None
                    | _ \<Rightarrow> True) [1..<max_attempts + 1]"

text \<open>
  The header of every response, on those attempts, is one the handler can act on: none,
  one that is not a number (the handler falls back to its own pause), or a decimal
  number of seconds that \<^verbatim>\<open>int\<close> and \<^verbatim>\<open>time.sleep\<close> accept.
\<close>

definition usable_retry_after :: "string option \<Rightarrow> bool" where
  "usable_retry_after hdr =
     (case hdr of
        None \<Rightarrow> True
      | Some h \<Rightarrow>
          h = [] \<or> (list_all isdigit_latin1 h \<longrightarrow>
            list_all isdigit_char h \<and> length h \<le> int_max_str_digits
            \<and> of_nat (int_of_digits h) \<le> sleep_max))"

definition usable_headers :: "(nat \<Rightarrow> get_outcome) \<Rightarrow> bool" where
  "usable_headers session =
     list_all (\<lambda>n. case session n of
                      Raises_HTTPError (Some r) \<Rightarrow> usable_retry_after (retry_after r)
                    | _ \<Rightarrow> True) [1..<max_attempts + 1]"

section \<open>Where each flattener looks for its series\<close>

text \<open>
  The keys of the \<^verbatim>\<open>data\<close> object under which a flattener looks for its series list,
  in the order it tries them, for stating what a payload without the series list is.
\<close>

fun series_keys :: "kind \<Rightarrow> string list" where
  "series_keys Surf = [''surf'']"
| "series_keys Swells = [''swells'']"
| "series_keys Rating = [''rating'', ''ratings'']"
| "series_keys Spectra = [''spectra'']"
| "series_keys Sunlight = [''sunlight'']"
| "series_keys Wind = [''wind'', ''windModel'']"
| "series_keys Tides = [''tides'']"
| "series_keys Conditions = [''conditions'']"

text \<open>
  The \<^verbatim>\<open>data\<close> object holds no series list for the kind: none of the kind's keys has a
  non-empty value, and no entry of the object is a list.
\<close>

definition lacks_series :: "kind \<Rightarrow> (string \<times> pyval) list \<Rightarrow> bool" where
  "lacks_series k d =
     (list_all (\<lambda>key. \<not> truthy (dict_lookup d key PNone)) (series_keys k)
      \<and> filter isinstance_list (map snd d) = [])"

section \<open>Properties of the drift analysis\<close>

lemma concat_map_map_filter:
  "concat (map f (List.map_filter g xs)) =
   concat (map (\<lambda>x. case g x of None \<Rightarrow> [] | Some y \<Rightarrow> f y) xs)"
  by (induction xs) (auto simp: List.map_filter_simps split: option.splits)

lemma map_filter_nth_upt:
  "List.map_filter (\<lambda>j. f (xs ! j)) [0..<length xs] = List.map_filter f xs"
proof -
  have "List.map_filter f (map (\<lambda>j. xs ! j) [0..<length xs]) = List.map_filter f xs"
    by (simp add: map_nth)
  then show ?thesis by (simp add: List.map_filter_def comp_def filter_map)
qed

lemma map_filter_product:
  "List.map_filter (\<lambda>(i, j). f i j) (List.product is js) =
   concat (map (\<lambda>i. List.map_filter (f i) js) is)"
  by (induction "is") (auto simp: List.map_filter_def filter_map comp_def)

text \<open>The checked addition: it goes through on every row or raises.\<close>

lemma make_left_in_range:
  "list_all (\<lambda>b. base_issue_date b + Timedelta_days 1 \<le> int64_max) base \<Longrightarrow>
   for_each make_left base = Inr (map left_row_of base)"
  by (induction base) (simp_all add: make_left_def)

lemma make_left_overflow:
  "\<not> list_all (\<lambda>b. base_issue_date b + Timedelta_days 1 \<le> int64_max) base \<Longrightarrow>
   for_each make_left base = Inl OverflowError"
proof (induction base)
  case Nil
  then show ?case by simp
next
  case (Cons b base)
  show ?case
  proof (cases "base_issue_date b + Timedelta_days 1 \<le> int64_max")
    case True
    with Cons show ?thesis by (simp add: make_left_def)
  next
    case False
    then show ?thesis by (simp add: make_left_def)
  qed
qed

lemma in_range_dropna:
  "issue_dates_in_range rows =
   list_all (\<lambda>b. base_issue_date b + Timedelta_days 1 \<le> int64_max) (dropna rows)"
  by (induction rows)
     (auto simp: issue_dates_in_range_def dropna_def List.map_filter_simps split: option.splits)

lemma compute_in_range:
  "issue_dates_in_range rows \<Longrightarrow>
   compute_24h_forecast_drift fsub (Datetime_frame rows) =
   Inr (map (add_error_columns fsub)
          (merge_inner (map left_row_of (dropna rows)) (dropna rows)))"
  by (simp add: compute_24h_forecast_drift_def Let_def in_range_dropna make_left_in_range)

lemma compute_overflow:
  "\<not> issue_dates_in_range rows \<Longrightarrow>
   compute_24h_forecast_drift fsub (Datetime_frame rows) = Inl OverflowError"
  by (simp add: compute_24h_forecast_drift_def Let_def in_range_dropna make_left_overflow)

lemma spec_DriftPair_incomplete:
  "complete_row D = None \<Longrightarrow> List.map_filter (spec_DriftPair fsub D) df = []"
  by (induction df)
     (auto simp: List.map_filter_simps complete_row_def spec_DriftPair_def split: option.splits)

lemma spec_DriftPair_complete:
  "complete_row D = Some b \<Longrightarrow>
   List.map_filter (spec_DriftPair fsub D) df =
   map (add_error_columns fsub)
     (map (Pair (left_row_of b)) (filter (join_keys_equal (left_row_of b)) (dropna df)))"
  by (induction df)
     (auto simp: List.map_filter_simps complete_row_def spec_DriftPair_def dropna_def
        add_error_columns_def left_row_of_def join_keys_equal_def Let_def split: option.splits)

text \<open>
  The merge, row by row: the drift frame lists, for every ordered pair of row positions
  \<open>(i, j)\<close> of the input, the DriftPair of rows \<open>i\<close> and \<open>j\<close> when there is one.
\<close>

lemma merged_eq_spec_list:
  "map (add_error_columns fsub) (merge_inner (map left_row_of (dropna df)) (dropna df)) =
   List.map_filter (\<lambda>(i, j). spec_DriftPair fsub (df ! i) (df ! j))
     (List.product [0..<length df] [0..<length df])"
proof -
  have "List.map_filter (\<lambda>(i, j). spec_DriftPair fsub (df ! i) (df ! j))
          (List.product [0..<length df] [0..<length df]) =
        concat (map (\<lambda>i. List.map_filter (spec_DriftPair fsub (df ! i)) df) [0..<length df])"
    by (simp add: map_filter_product map_filter_nth_upt)
  also have "\<dots> = concat (map (\<lambda>D. List.map_filter (spec_DriftPair fsub D) df) df)"
  proof -
    have "map (\<lambda>i. List.map_filter (spec_DriftPair fsub (df ! i)) df) [0..<length df] =
          map (\<lambda>D. List.map_filter (spec_DriftPair fsub D) df) (map (\<lambda>i. df ! i) [0..<length df])"
      by simp
    then show ?thesis by (simp only: map_nth)
  qed
  also have "\<dots> = concat (map (\<lambda>D. case complete_row D of None \<Rightarrow> []
       | Some b \<Rightarrow> map (add_error_columns fsub) (map (Pair (left_row_of b))
            (filter (join_keys_equal (left_row_of b)) (dropna df)))) df)"
    by (rule arg_cong[where f=concat], rule map_cong)
       (auto simp: spec_DriftPair_incomplete spec_DriftPair_complete split: option.splits)
  also have "\<dots> =
      map (add_error_columns fsub) (merge_inner (map left_row_of (dropna df)) (dropna df))"
    unfolding merge_inner_def
    by (simp add: dropna_def concat_map_map_filter map_concat comp_def)
       (auto intro!: arg_cong[where f=concat] simp: dropna_def split: option.splits)
  finally show ?thesis by simp
qed

lemma length_pairs_merge:
  "length (filter (\<lambda>p. issue_date_x p = d \<and> pair_valid_time p = t)
            (map (add_error_columns fsub) (merge_inner (map left_row_of ls) rs))) =
   length (filter (\<lambda>b. base_issue_date b = d \<and> base_valid_time b = t) ls) *
   length (filter (\<lambda>b. base_issue_date b = d + Timedelta_days 1 \<and> base_valid_time b = t) rs)"
proof (induction ls)
  case Nil
  then show ?case by (simp add: merge_inner_def)
next
  case (Cons l ls)
  have step: "length (filter (\<lambda>p. issue_date_x p = d \<and> pair_valid_time p = t)
      (map (add_error_columns fsub)
         (map (Pair (left_row_of l)) (filter (join_keys_equal (left_row_of l)) rs)))) =
    (if base_issue_date l = d \<and> base_valid_time l = t
     then length (filter (\<lambda>b. base_issue_date b = d + Timedelta_days 1 \<and> base_valid_time b = t) rs)
     else 0)"
    by (induction rs)
       (auto simp: add_error_columns_def left_row_of_def join_keys_equal_def Let_def)
  have "merge_inner (map left_row_of (l # ls)) rs =
        map (Pair (left_row_of l)) (filter (join_keys_equal (left_row_of l)) rs) @
        merge_inner (map left_row_of ls) rs"
    by (simp add: merge_inner_def)
  then show ?case using Cons.IH step by simp
qed

lemma count_present_dropna:
  "length (filter (\<lambda>b. base_issue_date b = d \<and> base_valid_time b = t) (dropna df)) =
   count_key_present d t df"
  by (induction df)
     (auto simp: dropna_def List.map_filter_simps complete_row_def count_key_present_def
        split: option.splits)

text \<open>
  Claim C1, as amended. On a frame of timestamps, when every issue date that the join
  uses is at least one day below the largest timestamp, the function returns, and the
  rows of the drift frame are, counted with multiplicity, exactly the DriftPairs of the
  ordered pairs of input rows \<open>(D, D1)\<close> in which no cell of \<^verbatim>\<open>issue_date\<close>,
  \<^verbatim>\<open>valid_time\<close>, \<^verbatim>\<open>surf_mid\<close> is missing, \<open>D1\<close> was issued exactly one day after
  \<open>D\<close> and the valid times are equal; each has for \<open>error\<close> the float64 difference
  \<open>surf_mid_Dplus1 - surf_mid_D\<close> and \<open>abs_error = \<bar>error\<bar>\<close>. When an issue date is
  nearer the largest timestamp, the function raises OverflowError. The two rows issued
  2025-01-01 (surf\_mid 3.0) and 2025-01-02 (surf\_mid 3.5) for the valid time
  2025-01-02T06:00Z give one pair with error 0.5 and absolute error 0.5, the float64
  difference of 3.5 and 3.0 being 0.5; rows issued two days apart give none.
\<close>

theorem drift_pairs_exact_join:
  "(issue_dates_in_range rows \<longrightarrow>
      (\<exists>ps. compute_24h_forecast_drift fsub (Datetime_frame rows) = Inr ps
         \<and> mset ps =
             mset (List.map_filter (\<lambda>(i, j). spec_DriftPair fsub (rows ! i) (rows ! j))
                (List.product [0..<length rows] [0..<length rows]))))
   \<and> (\<not> issue_dates_in_range rows \<longrightarrow>
        compute_24h_forecast_drift fsub (Datetime_frame rows) = Inl OverflowError)
   \<and> (fsub (7 / 2) 3 = 1 / 2 \<longrightarrow>
        compute_24h_forecast_drift fsub (Datetime_frame
          [\<lparr>issue_date = Some 1735689600000000000, valid_time = Some 1735797600000000000,
            surf_mid = Some 3\<rparr>,
           \<lparr>issue_date = Some 1735776000000000000, valid_time = Some 1735797600000000000,
            surf_mid = Some (7 / 2)\<rparr>]) =
        Inr [\<lparr>issue_date_x = 1735689600000000000, pair_valid_time = 1735797600000000000,
              surf_mid_D = 3, next_issue_date = 1735776000000000000,
              issue_date_y = 1735776000000000000, surf_mid_Dplus1 = 7 / 2,
              error = 1 / 2, abs_error = 1 / 2, hour = 6\<rparr>])
   \<and> compute_24h_forecast_drift fsub (Datetime_frame
       [\<lparr>issue_date = Some 1735689600000000000, valid_time = Some 1735797600000000000,
         surf_mid = Some 3\<rparr>,
        \<lparr>issue_date = Some 1735862400000000000, valid_time = Some 1735797600000000000,
         surf_mid = Some (7 / 2)\<rparr>]) = Inr []"
proof (intro conjI impI)
  assume "issue_dates_in_range rows"
  then show "\<exists>ps. compute_24h_forecast_drift fsub (Datetime_frame rows) = Inr ps
         \<and> mset ps =
             mset (List.map_filter (\<lambda>(i, j). spec_DriftPair fsub (rows ! i) (rows ! j))
                (List.product [0..<length rows] [0..<length rows]))"
    by (simp only: compute_in_range merged_eq_spec_list) simp
next
  assume "\<not> issue_dates_in_range rows"
  then show "compute_24h_forecast_drift fsub (Datetime_frame rows) = Inl OverflowError"
    by (rule compute_overflow)
next
  assume "fsub (7 / 2) 3 = 1 / 2"
  then show "compute_24h_forecast_drift fsub (Datetime_frame
          [\<lparr>issue_date = Some 1735689600000000000, valid_time = Some 1735797600000000000,
            surf_mid = Some 3\<rparr>,
           \<lparr>issue_date = Some 1735776000000000000, valid_time = Some 1735797600000000000,
            surf_mid = Some (7 / 2)\<rparr>]) =
        Inr [\<lparr>issue_date_x = 1735689600000000000, pair_valid_time = 1735797600000000000,
              surf_mid_D = 3, next_issue_date = 1735776000000000000,
              issue_date_y = 1735776000000000000, surf_mid_Dplus1 = 7 / 2,
              error = 1 / 2, abs_error = 1 / 2, hour = 6\<rparr>]"
    by (simp add: compute_24h_forecast_drift_def dropna_def List.map_filter_simps
          complete_row_def make_left_def left_row_of_def merge_inner_def join_keys_equal_def
          add_error_columns_def Timedelta_days_def int64_max_def dt_hour_def Let_def)
next
  show "compute_24h_forecast_drift fsub (Datetime_frame
       [\<lparr>issue_date = Some 1735689600000000000, valid_time = Some 1735797600000000000,
         surf_mid = Some 3\<rparr>,
        \<lparr>issue_date = Some 1735862400000000000, valid_time = Some 1735797600000000000,
         surf_mid = Some (7 / 2)\<rparr>]) = Inr []"
    by (simp add: compute_24h_forecast_drift_def dropna_def List.map_filter_simps
          complete_row_def make_left_def left_row_of_def merge_inner_def join_keys_equal_def
          Timedelta_days_def int64_max_def Let_def)
qed

theorem drift_pairs_exact_join_witness:
  "issue_dates_in_range
     [\<lparr>issue_date = Some 1735689600000000000, valid_time = Some 1735797600000000000,
       surf_mid = Some 3\<rparr>,
      \<lparr>issue_date = Some 1735776000000000000, valid_time = Some 1735797600000000000,
       surf_mid = Some (7 / 2)\<rparr>]
   \<and> compute_24h_forecast_drift (\<lambda>a b. a - b) (Datetime_frame
       [\<lparr>issue_date = Some 1735689600000000000, valid_time = Some 1735797600000000000,
         surf_mid = Some 3\<rparr>,
        \<lparr>issue_date = Some 1735776000000000000, valid_time = Some 1735797600000000000,
         surf_mid = Some (7 / 2)\<rparr>]) =
       Inr [\<lparr>issue_date_x = 1735689600000000000, pair_valid_time = 1735797600000000000,
             surf_mid_D = 3, next_issue_date = 1735776000000000000,
             issue_date_y = 1735776000000000000, surf_mid_Dplus1 = 7 / 2,
             error = 1 / 2, abs_error = 1 / 2, hour = 6\<rparr>]
   \<and> \<not> issue_dates_in_range
       [\<lparr>issue_date = Some 9223372036854775807, valid_time = Some 1735797600000000000,
         surf_mid = Some 3\<rparr>]
   \<and> compute_24h_forecast_drift (\<lambda>a b. a - b) (Datetime_frame
       [\<lparr>issue_date = Some 9223372036854775807, valid_time = Some 1735797600000000000,
         surf_mid = Some 3\<rparr>]) = Inl OverflowError"
  using drift_pairs_exact_join
      [where fsub = "\<lambda>a b. a - b" and rows =
        "[\<lparr>issue_date = Some 1735689600000000000, valid_time = Some 1735797600000000000,
           surf_mid = Some 3\<rparr>,
          \<lparr>issue_date = Some 1735776000000000000, valid_time = Some 1735797600000000000,
           surf_mid = Some (7 / 2)\<rparr>]"]
    drift_pairs_exact_join
      [where fsub = "\<lambda>a b. a - b" and rows =
        "[\<lparr>issue_date = Some 9223372036854775807, valid_time = Some 1735797600000000000,
           surf_mid = Some 3\<rparr>]"]
  by (simp add: issue_dates_in_range_def complete_row_def Timedelta_days_def int64_max_def)

text \<open>
  Claim C1 as stated fails on a row whose \<^verbatim>\<open>surf_mid\<close> is missing: the two rows below
  were issued one day apart for the same valid time, yet \<^verbatim>\<open>dropna()\<close> removes the
  first and no DriftPair is produced.
\<close>

theorem drift_missing_surf_mid_counterexample:
  "keys_one_day_apart
     \<lparr>issue_date = Some 1735689600000000000, valid_time = Some 1735797600000000000,
      surf_mid = None\<rparr>
     \<lparr>issue_date = Some 1735776000000000000, valid_time = Some 1735797600000000000,
      surf_mid = Some (7 / 2)\<rparr>
   \<and> compute_24h_forecast_drift (\<lambda>a b. a - b) (Datetime_frame
       [\<lparr>issue_date = Some 1735689600000000000, valid_time = Some 1735797600000000000,
         surf_mid = None\<rparr>,
        \<lparr>issue_date = Some 1735776000000000000, valid_time = Some 1735797600000000000,
         surf_mid = Some (7 / 2)\<rparr>]) = Inr []"
  by (simp add: keys_one_day_apart_def compute_24h_forecast_drift_def dropna_def
        List.map_filter_simps complete_row_def make_left_def left_row_of_def merge_inner_def
        join_keys_equal_def Timedelta_days_def int64_max_def Let_def)

text \<open>
  Claim C8, as amended. On a frame of timestamps whose issue dates are at least one day
  below the largest timestamp, the function returns, and among the rows whose
  \<^verbatim>\<open>surf_mid\<close> is present, \<open>m\<close> rows with key \<open>(d, t)\<close> and \<open>n\<close> rows with key
  \<open>(d + 1 day, t)\<close> give exactly \<open>m * n\<close> DriftPairs for that key: the full cross
  product, with no deduplication.
\<close>

theorem drift_cross_product:
  "issue_dates_in_range rows \<longrightarrow>
     (\<exists>ps. compute_24h_forecast_drift fsub (Datetime_frame rows) = Inr ps
        \<and> length (pairs_for_key d t ps) =
            count_key_present d t rows * count_key_present (d + Timedelta_days 1) t rows)"
proof
  assume "issue_dates_in_range rows"
  then have "compute_24h_forecast_drift fsub (Datetime_frame rows) =
      Inr (map (add_error_columns fsub)
             (merge_inner (map left_row_of (dropna rows)) (dropna rows)))"
    by (rule compute_in_range)
  moreover have "length (pairs_for_key d t (map (add_error_columns fsub)
             (merge_inner (map left_row_of (dropna rows)) (dropna rows)))) =
      count_key_present d t rows * count_key_present (d + Timedelta_days 1) t rows"
    unfolding pairs_for_key_def by (simp only: length_pairs_merge count_present_dropna)
  ultimately show "\<exists>ps. compute_24h_forecast_drift fsub (Datetime_frame rows) = Inr ps
        \<and> length (pairs_for_key d t ps) =
            count_key_present d t rows * count_key_present (d + Timedelta_days 1) t rows"
    by blast
qed

theorem drift_cross_product_witness:
  "issue_dates_in_range
     [\<lparr>issue_date = Some 0, valid_time = Some 21600000000000, surf_mid = Some 3\<rparr>,
      \<lparr>issue_date = Some 0, valid_time = Some 21600000000000, surf_mid = Some 3\<rparr>,
      \<lparr>issue_date = Some 86400000000000, valid_time = Some 21600000000000, surf_mid = Some 2\<rparr>]
   \<and> (\<exists>ps. compute_24h_forecast_drift (\<lambda>a b. a - b) (Datetime_frame
       [\<lparr>issue_date = Some 0, valid_time = Some 21600000000000, surf_mid = Some 3\<rparr>,
        \<lparr>issue_date = Some 0, valid_time = Some 21600000000000, surf_mid = Some 3\<rparr>,
        \<lparr>issue_date = Some 86400000000000, valid_time = Some 21600000000000,
         surf_mid = Some 2\<rparr>]) = Inr ps
      \<and> length (pairs_for_key 0 21600000000000 ps) = 2)"
  using drift_cross_product
      [where fsub = "\<lambda>a b. a - b" and d = 0 and t = 21600000000000 and rows =
        "[\<lparr>issue_date = Some 0, valid_time = Some 21600000000000, surf_mid = Some 3\<rparr>,
          \<lparr>issue_date = Some 0, valid_time = Some 21600000000000, surf_mid = Some 3\<rparr>,
          \<lparr>issue_date = Some 86400000000000, valid_time = Some 21600000000000,
           surf_mid = Some 2\<rparr>]"]
  by (simp add: issue_dates_in_range_def complete_row_def Timedelta_days_def int64_max_def
        count_key_present_def numeral_2_eq_2)

text \<open>
  Claim C8 as stated counts every row of a key. With one row of key \<open>(d, t)\<close> whose
  \<^verbatim>\<open>surf_mid\<close> is missing and one row of key \<open>(d + 1 day, t)\<close>, that count is
  \<open>1 * 1\<close>, and the drift frame has no pair for the key.
\<close>

theorem drift_cross_product_counterexample:
  "count_key 0 21600000000000
       [\<lparr>issue_date = Some 0, valid_time = Some 21600000000000, surf_mid = None\<rparr>,
        \<lparr>issue_date = Some 86400000000000, valid_time = Some 21600000000000,
         surf_mid = Some 2\<rparr>] = 1
   \<and> count_key (0 + Timedelta_days 1) 21600000000000
       [\<lparr>issue_date = Some 0, valid_time = Some 21600000000000, surf_mid = None\<rparr>,
        \<lparr>issue_date = Some 86400000000000, valid_time = Some 21600000000000,
         surf_mid = Some 2\<rparr>] = 1
   \<and> compute_24h_forecast_drift (\<lambda>a b. a - b) (Datetime_frame
         [\<lparr>issue_date = Some 0, valid_time = Some 21600000000000, surf_mid = None\<rparr>,
          \<lparr>issue_date = Some 86400000000000, valid_time = Some 21600000000000,
           surf_mid = Some 2\<rparr>]) = Inr []
   \<and> length (pairs_for_key 0 21600000000000 []) = 0"
  by (simp add: count_key_def pairs_for_key_def compute_24h_forecast_drift_def dropna_def
        List.map_filter_simps complete_row_def make_left_def left_row_of_def merge_inner_def
        join_keys_equal_def Timedelta_days_def int64_max_def Let_def)

text \<open>
  Claim C9, as amended. On the empty frame of timestamps the function returns the empty
  drift frame and the script reports the count zero followed by the "no overlapping
  valid times" line. The same holds for every frame of timestamps in which no two rows
  form a DriftPair and every issue date that the join uses is at least one day below the
  largest timestamp.
\<close>

theorem drift_empty_is_no_data:
  "compute_24h_forecast_drift fsub (Datetime_frame []) = Inr []
   \<and> main_drift_analysis fsub fmean (Datetime_frame []) =
       Inr [Matched_pairs 0, No_overlapping_valid_times]
   \<and> (issue_dates_in_range rows
        \<and> (\<forall>D \<in> set rows. \<forall>D1 \<in> set rows. spec_DriftPair fsub D D1 = None) \<longrightarrow>
        compute_24h_forecast_drift fsub (Datetime_frame rows) = Inr []
        \<and> main_drift_analysis fsub fmean (Datetime_frame rows) =
            Inr [Matched_pairs 0, No_overlapping_valid_times])"
proof (intro conjI impI)
  show e: "compute_24h_forecast_drift fsub (Datetime_frame []) = Inr []"
    by (simp add: compute_24h_forecast_drift_def dropna_def List.map_filter_simps
          merge_inner_def)
  show "main_drift_analysis fsub fmean (Datetime_frame []) =
       Inr [Matched_pairs 0, No_overlapping_valid_times]"
    by (simp add: e main_drift_analysis_def main_drift_report_def)
next
  assume a: "issue_dates_in_range rows
        \<and> (\<forall>D \<in> set rows. \<forall>D1 \<in> set rows. spec_DriftPair fsub D D1 = None)"
  have "filter (\<lambda>x. (case x of (i, j) \<Rightarrow> spec_DriftPair fsub (rows ! i) (rows ! j)) \<noteq> None)
          (List.product [0..<length rows] [0..<length rows]) = []"
    using a by (auto simp: filter_empty_conv)
  then have "List.map_filter (\<lambda>(i, j). spec_DriftPair fsub (rows ! i) (rows ! j))
          (List.product [0..<length rows] [0..<length rows]) = []"
    by (simp add: List.map_filter_def)
  with a show c: "compute_24h_forecast_drift fsub (Datetime_frame rows) = Inr []"
    by (simp only: compute_in_range merged_eq_spec_list)
  show "main_drift_analysis fsub fmean (Datetime_frame rows) =
       Inr [Matched_pairs 0, No_overlapping_valid_times]"
    by (simp add: c main_drift_analysis_def main_drift_report_def)
qed

theorem drift_empty_is_no_data_witness:
  "issue_dates_in_range
     [\<lparr>issue_date = Some 0, valid_time = Some 21600000000000, surf_mid = Some 3\<rparr>,
      \<lparr>issue_date = Some 172800000000000, valid_time = Some 21600000000000,
       surf_mid = Some 4\<rparr>]
   \<and> (spec_DriftPair (\<lambda>a b. a - b)
      \<lparr>issue_date = Some 0, valid_time = Some 21600000000000, surf_mid = Some 3\<rparr>
      \<lparr>issue_date = Some 172800000000000, valid_time = Some 21600000000000,
       surf_mid = Some 4\<rparr> = None)
   \<and> compute_24h_forecast_drift (\<lambda>a b. a - b) (Datetime_frame
       [\<lparr>issue_date = Some 0, valid_time = Some 21600000000000, surf_mid = Some 3\<rparr>,
        \<lparr>issue_date = Some 172800000000000, valid_time = Some 21600000000000,
         surf_mid = Some 4\<rparr>]) = Inr []
   \<and> main_drift_analysis (\<lambda>a b. a - b) (\<lambda>xs. sum_list xs / of_nat (length xs))
       (Datetime_frame
       [\<lparr>issue_date = Some 0, valid_time = Some 21600000000000, surf_mid = Some 3\<rparr>,
        \<lparr>issue_date = Some 172800000000000, valid_time = Some 21600000000000,
         surf_mid = Some 4\<rparr>]) = Inr [Matched_pairs 0, No_overlapping_valid_times]"
  using drift_empty_is_no_data
    [where fsub = "\<lambda>a b. a - b" and fmean = "\<lambda>xs. sum_list xs / of_nat (length xs)" and rows =
      "[\<lparr>issue_date = Some 0, valid_time = Some 21600000000000, surf_mid = Some 3\<rparr>,
          \<lparr>issue_date = Some 172800000000000, valid_time = Some 21600000000000,
           surf_mid = Some 4\<rparr>]"]
  by (simp add: spec_DriftPair_def issue_dates_in_range_def complete_row_def
        Timedelta_days_def int64_max_def)

text \<open>
  Claim C9 as stated fails in two ways. On the empty frame built without dtypes
  \<^verbatim>\<open>pd.merge\<close> raises ValueError. On a frame of one row whose issue date is the largest
  timestamp, which has no pair, the addition of one day raises OverflowError.
\<close>

theorem drift_empty_untyped_counterexample:
  "compute_24h_forecast_drift (\<lambda>a b. a - b) Untyped_empty_frame = Inl ValueError
   \<and> List.map_filter (\<lambda>(i, j). spec_DriftPair (\<lambda>a b. a - b)
         ([\<lparr>issue_date = Some 9223372036854775807, valid_time = Some 21600000000000,
            surf_mid = Some 3\<rparr>] ! i)
         ([\<lparr>issue_date = Some 9223372036854775807, valid_time = Some 21600000000000,
            surf_mid = Some 3\<rparr>] ! j)) (List.product [0..<1] [0..<1]) = []
   \<and> compute_24h_forecast_drift (\<lambda>a b. a - b) (Datetime_frame
       [\<lparr>issue_date = Some 9223372036854775807, valid_time = Some 21600000000000,
         surf_mid = Some 3\<rparr>]) = Inl OverflowError"
  by (simp add: compute_24h_forecast_drift_def dropna_def List.map_filter_simps
        complete_row_def make_left_def spec_DriftPair_def Timedelta_days_def int64_max_def
        Let_def)

section \<open>Properties of the rate-limit aware request\<close>

lemma attempts_range: "[1..<max_attempts + 1] = [1, 2, 3, 4, 5]"
  by (simp add: max_attempts_def upt_rec)

lemma get_attempts_bound:
  "attempts (get_attempts session ns acc) \<le> attempts acc + length ns"
proof (induction ns arbitrary: acc)
  case Nil
  then show ?case by simp
next
  case (Cons n ns)
  show ?case
  proof (cases "session n")
    case (Returns j)
    then show ?thesis by (simp add: Let_def)
  next
    case (Raises_HTTPError response)
    show ?thesis
    proof (cases "map_option status_code response = Some 429")
      case True
      show ?thesis
      proof (cases "and_then (rate_limit_wait response n) (\<lambda>wait.
                            and_then (time_sleep wait) (\<lambda>u. Inr wait))")
        case (Inl e)
        with True Raises_HTTPError show ?thesis by (auto simp: Let_def)
      next
        case (Inr wait)
        have "attempts (get_attempts session ns
                (acc\<lparr>attempts := attempts acc + 1, slept := slept acc @ [wait]\<rparr>))
              \<le> attempts acc + 1 + length ns"
          using Cons.IH[of "acc\<lparr>attempts := attempts acc + 1, slept := slept acc @ [wait]\<rparr>"]
          by simp
        with True Raises_HTTPError Inr show ?thesis by (auto simp: Let_def)
      qed
    next
      case False
      with Raises_HTTPError show ?thesis by (auto simp: Let_def)
    qed
  next
    case (Raises e)
    then show ?thesis by (simp add: Let_def)
  qed
qed

text \<open>A header the handler can act on gives a pause and no exception.\<close>

lemma handler_pause:
  assumes "usable_retry_after (retry_after r)" and "n \<le> 5"
  shows "\<exists>wait. and_then (rate_limit_wait (Some r) n) (\<lambda>wait.
                   and_then (time_sleep wait) (\<lambda>u. Inr wait)) = Inr wait"
proof -
  have b: "\<not> sleep_max < base_sleep * of_nat n"
  proof -
    have "(of_nat n :: rat) \<le> 5" using assms(2) by (metis of_nat_le_iff of_nat_numeral)
    then show ?thesis by (simp add: sleep_max_def base_sleep_def)
  qed
  show ?thesis
  proof (cases "retry_after r")
    case None
    then show ?thesis using b by (simp add: rate_limit_wait_def time_sleep_def)
  next
    case (Some h)
    show ?thesis
    proof (cases "h \<noteq> [] \<and> str_isdigit h")
      case True
      then have "list_all isdigit_char h \<and> length h \<le> int_max_str_digits
            \<and> of_nat (int_of_digits h) \<le> sleep_max"
        using assms(1) Some by (auto simp: usable_retry_after_def str_isdigit_def)
      then show ?thesis using True Some
        by (simp add: rate_limit_wait_def time_sleep_def py_int_def)
    next
      case False
      then show ?thesis using b Some by (auto simp: rate_limit_wait_def time_sleep_def)
    qed
  qed
qed

lemma get_attempts_usable:
  "list_all (\<lambda>n. n \<le> 5 \<and> (case session n of
        Raises_HTTPError (Some r) \<Rightarrow> status_code r = 429 \<and> usable_retry_after (retry_after r)
      | _ \<Rightarrow> False)) ns
   \<Longrightarrow> outcome (get_attempts session ns acc) = Inl RuntimeError
       \<and> attempts (get_attempts session ns acc) = attempts acc + length ns"
proof (induction ns arbitrary: acc)
  case Nil
  then show ?case by simp
next
  case (Cons n ns)
  from Cons.prems obtain r where r: "session n = Raises_HTTPError (Some r)"
      "status_code r = 429" "usable_retry_after (retry_after r)" "n \<le> 5"
    by (auto split: get_outcome.splits option.splits)
  obtain wait where w: "and_then (rate_limit_wait (Some r) n) (\<lambda>wait.
                   and_then (time_sleep wait) (\<lambda>u. Inr wait)) = Inr wait"
    using handler_pause[OF r(3) r(4)] by blast
  from Cons.prems have rest: "list_all (\<lambda>n. n \<le> 5 \<and> (case session n of
        Raises_HTTPError (Some r) \<Rightarrow> status_code r = 429 \<and> usable_retry_after (retry_after r)
      | _ \<Rightarrow> False)) ns"
    by simp
  show ?case using r(1,2) w Cons.IH[OF rest] by (simp add: Let_def)
qed

lemma get_attempts_backoff:
  "list_all (\<lambda>n. n \<le> 5 \<and> (case session n of
        Raises_HTTPError (Some r) \<Rightarrow> status_code r = 429 \<and> retry_after r = None
      | _ \<Rightarrow> False)) ns
   \<Longrightarrow> slept (get_attempts session ns acc) = slept acc @ map (\<lambda>n. base_sleep * of_nat n) ns"
proof (induction ns arbitrary: acc)
  case Nil
  then show ?case by simp
next
  case (Cons n ns)
  from Cons.prems obtain r where r: "session n = Raises_HTTPError (Some r)"
      "status_code r = 429" "retry_after r = None" "n \<le> 5"
    by (auto split: get_outcome.splits option.splits)
  have "(of_nat n :: rat) \<le> 5" using r(4) by (metis of_nat_le_iff of_nat_numeral)
  then have w: "and_then (rate_limit_wait (Some r) n) (\<lambda>wait.
                   and_then (time_sleep wait) (\<lambda>u. Inr wait)) = Inr (base_sleep * of_nat n)"
    using r(3) by (simp add: rate_limit_wait_def time_sleep_def sleep_max_def base_sleep_def)
  from Cons.prems have rest: "list_all (\<lambda>n. n \<le> 5 \<and> (case session n of
        Raises_HTTPError (Some r) \<Rightarrow> status_code r = 429 \<and> retry_after r = None
      | _ \<Rightarrow> False)) ns"
    by simp
  show ?case using r(1,2) w Cons.IH[OF rest] by (simp add: Let_def)
qed

text \<open>
  What holds of the retry loop. A call never makes more than 5 requests. When every
  response is a 429 and every \<^verbatim>\<open>Retry-After\<close> header is one the handler can act on, the
  call makes exactly 5 requests and then raises the RuntimeError ("too many 429
  responses"). When no response carries the header, the pauses are \<open>base_sleep\<close> times
  the attempt number: 5, 10, 15, 20 and 25 seconds, growing strictly.
\<close>

lemma get_gives_up_after_five:
  "attempts (SurflineAPI_get session) \<le> 5
   \<and> (all_429 session \<and> usable_headers session \<longrightarrow>
        outcome (SurflineAPI_get session) = Inl RuntimeError
        \<and> attempts (SurflineAPI_get session) = 5)
   \<and> (all_429 session \<and> no_retry_after session \<longrightarrow>
        slept (SurflineAPI_get session) = map (\<lambda>n. base_sleep * of_nat n) [1, 2, 3, 4, 5])
   \<and> (m < n \<longrightarrow> base_sleep * of_nat m < base_sleep * of_nat n)"
proof (intro conjI impI)
  show "attempts (SurflineAPI_get session) \<le> 5"
    using get_attempts_bound[of session "[1..<max_attempts + 1]"
            "\<lparr>outcome = Inl RuntimeError, attempts = 0, slept = []\<rparr>"]
    by (simp add: SurflineAPI_get_def max_attempts_def)
next
  assume a: "all_429 session \<and> usable_headers session"
  have l: "list_all (\<lambda>n. n \<le> 5 \<and> (case session n of
        Raises_HTTPError (Some r) \<Rightarrow> status_code r = 429 \<and> usable_retry_after (retry_after r)
      | _ \<Rightarrow> False)) [1, 2, 3, 4, 5]"
    using a unfolding all_429_def usable_headers_def attempts_range
    by (auto split: get_outcome.splits option.splits)
  show "outcome (SurflineAPI_get session) = Inl RuntimeError"
    and "attempts (SurflineAPI_get session) = 5"
    using get_attempts_usable[OF l, of "\<lparr>outcome = Inl RuntimeError, attempts = 0, slept = []\<rparr>"]
    unfolding SurflineAPI_get_def attempts_range
    by (simp_all del: get_attempts.simps)
next
  assume a: "all_429 session \<and> no_retry_after session"
  have l: "list_all (\<lambda>n. n \<le> 5 \<and> (case session n of
        Raises_HTTPError (Some r) \<Rightarrow> status_code r = 429 \<and> retry_after r = None
      | _ \<Rightarrow> False)) [1, 2, 3, 4, 5]"
    using a unfolding all_429_def no_retry_after_def attempts_range
    by (auto split: get_outcome.splits option.splits)
  show "slept (SurflineAPI_get session) = map (\<lambda>n. base_sleep * of_nat n) [1, 2, 3, 4, 5]"
    using get_attempts_backoff[OF l, of "\<lparr>outcome = Inl RuntimeError, attempts = 0, slept = []\<rparr>"]
    unfolding SurflineAPI_get_def attempts_range
    by (simp del: get_attempts.simps)
next
  assume "m < n"
  then show "base_sleep * of_nat m < base_sleep * of_nat n"
    by (simp add: base_sleep_def)
qed

text \<open>
  Claim C2 fails on the code. With every response a 429, a \<^verbatim>\<open>Retry-After\<close> header that
  is the superscript two (U+00B2) passes \<^verbatim>\<open>isdigit()\<close> and \<^verbatim>\<open>int()\<close> raises ValueError; a
  header of twenty nines is a pause \<^verbatim>\<open>time.sleep\<close> refuses with OverflowError. Either
  exception is raised inside the handler of the 429 and leaves \<^verbatim>\<open>_get\<close> after one
  request: it is not the RuntimeError that follows 5 attempts.
\<close>

theorem get_raises_in_429_handler:
  "all_429 (\<lambda>n. Raises_HTTPError (Some \<lparr>status_code = 429, retry_after = Some [CHR 0xB2]\<rparr>))
   \<and> SurflineAPI_get
       (\<lambda>n. Raises_HTTPError (Some \<lparr>status_code = 429, retry_after = Some [CHR 0xB2]\<rparr>)) =
       \<lparr>outcome = Inl ValueError, attempts = 1, slept = []\<rparr>
   \<and> all_429 (\<lambda>n. Raises_HTTPError
         (Some \<lparr>status_code = 429, retry_after = Some ''99999999999999999999''\<rparr>))
   \<and> SurflineAPI_get
       (\<lambda>n. Raises_HTTPError
         (Some \<lparr>status_code = 429, retry_after = Some ''99999999999999999999''\<rparr>)) =
       \<lparr>outcome = Inl OverflowError, attempts = 1, slept = []\<rparr>"
  unfolding all_429_def SurflineAPI_get_def attempts_range
  by (simp add: rate_limit_wait_def str_isdigit_def isdigit_latin1_def isdigit_char_def
        py_int_def int_max_str_digits_def int_of_digits_def time_sleep_def sleep_max_def
        Let_def)

section \<open>Properties of the file names\<close>

lemma digit_cases: "d < 10 \<Longrightarrow> d = 0 \<or> d = 1 \<or> d = 2 \<or> d = 3 \<or> d = 4 \<or> d = 5 \<or> d = 6 \<or> d = 7 \<or> d = 8 \<or> d = (9::nat)"
  by arith

lemma digit_char_props:
  assumes "d < 10"
  shows "isdigit_char (digit_char d)" and "of_char (digit_char d) - 48 = d"
    and "digit_char d \<noteq> CHR ''_''" and "digit_char d \<noteq> CHR 0x0A"
  using digit_cases[OF assms]
  by (auto simp: digit_char_def isdigit_char_def)

lemma int_of_pad2: "n < 100 \<Longrightarrow> int_of_digits (pad2 n) = n"
proof -
  assume n: "n < 100"
  have a: "n div 10 mod 10 < 10" "n mod 10 < 10" by simp_all
  have "int_of_digits (pad2 n) = 10 * (n div 10 mod 10) + n mod 10"
    by (simp add: int_of_digits_def pad2_def digit_char_props(2)[OF a(1)] digit_char_props(2)[OF a(2)])
  also have "\<dots> = n" using n by simp
  finally show ?thesis .
qed

lemma pad2_digits: "list_all isdigit_char (pad2 n)" "length (pad2 n) = 2"
  by (simp_all add: pad2_def digit_char_props(1))

lemma parse_shape:
  assumes "length g = 6" "list_all isdigit_char g"
  shows "parse_issue_date_from_name (pre @ ''forecast_wave_'' @ g @ ''.csv'') =
     Timestamp (2000 + int_of_digits (take 2 g))
                (int_of_digits (take 2 (drop 2 g))) (int_of_digits (drop 4 g))"
  unfolding parse_issue_date_from_name_def Let_def using assms by simp

lemma year_of_two_digits: "2000 \<le> y \<Longrightarrow> y \<le> 2099 \<Longrightarrow> 2000 + y mod 100 = (y::nat)"
proof -
  assume a: "2000 \<le> y" "y \<le> 2099"
  define k where "k = y - 2000"
  have y: "y = 100 * 20 + k" and k: "k < 100" using a by (simp_all add: k_def)
  have "y mod 100 = k mod 100" unfolding y by (rule mod_mult_self4)
  then show ?thesis using k y by simp
qed

lemma tag_YYMMDD_shape:
  "length (tag_YYMMDD d) = 6" "list_all isdigit_char (tag_YYMMDD d)"
  "take 2 (tag_YYMMDD d) = pad2 (year d mod 100)"
  "take 2 (drop 2 (tag_YYMMDD d)) = pad2 (month d)"
  "drop 4 (tag_YYMMDD d) = pad2 (day d)"
  by (simp_all add: tag_YYMMDD_def pad2_digits)

lemma parse_roundtrip:
  assumes v: "valid_date d" and y: "2000 \<le> year d" "year d \<le> 2099"
  shows "parse_issue_date_from_name (folder @ ''forecast_wave_'' @ tag_YYMMDD d @ ''.csv'') = Inr d"
proof -
  have m: "month d < 100" "day d < 100"
    using v by (auto simp: valid_date_def days_in_month_def split: if_splits)
  have "parse_issue_date_from_name (folder @ ''forecast_wave_'' @ tag_YYMMDD d @ ''.csv'') =
    Timestamp (2000 + int_of_digits (pad2 (year d mod 100)))
                (int_of_digits (pad2 (month d))) (int_of_digits (pad2 (day d)))"
    by (simp only: parse_shape[OF tag_YYMMDD_shape(1,2)] tag_YYMMDD_shape(3,4,5))
  also have "\<dots> = Timestamp (year d) (month d) (day d)"
    using m year_of_two_digits[OF y] by (simp add: int_of_pad2)
  also have "\<dots> = Inr d" using v by (cases d) (simp add: Timestamp_def)
  finally show ?thesis .
qed

lemma str_nat_four:
  assumes "1000 \<le> y" "y \<le> 9999"
  shows "str_nat y = [digit_char (y div 1000), digit_char (y div 100 mod 10),
                      digit_char (y div 10 mod 10), digit_char (y mod 10)]"
proof -
  have a: "\<not> y < 10" "\<not> y div 10 < 10" "\<not> y div 100 < 10" "y div 1000 < 10"
    using assms by simp_all
  have d: "y div 10 div 10 = y div 100" "y div 100 div 10 = y div 1000"
    by (simp_all add: div_mult2_eq[symmetric])
  have 1: "str_nat y = str_nat (y div 10) @ [digit_char (y mod 10)]"
    by (subst str_nat.simps) (simp add: a)
  have 2: "str_nat (y div 10) = str_nat (y div 100) @ [digit_char (y div 10 mod 10)]"
    by (subst str_nat.simps) (simp add: a d)
  have 3: "str_nat (y div 100) = str_nat (y div 1000) @ [digit_char (y div 100 mod 10)]"
    by (subst str_nat.simps) (simp add: a d)
  have 4: "str_nat (y div 1000) = [digit_char (y div 1000)]"
    by (subst str_nat.simps) (simp add: a)
  show ?thesis by (simp add: 1 2 3 4)
qed

lemma strftime_Ymd_length:
  "1000 \<le> year d \<Longrightarrow> year d \<le> 9999 \<Longrightarrow> length (strftime_Ymd d) = 8"
  by (simp add: strftime_Ymd_def str_nat_four pad2_digits)

lemma harvest_name_rejected:
  assumes y: "1000 \<le> year d" "year d \<le> 9999"
  shows "parse_issue_date_from_name (harvest_file_name slug k d) = Inl ValueError"
proof -
  define b where "b = digit_char (year d div 100 mod 10)"
  define P where "P = slug @ ''_'' @ kind_name k @ ''_'' @ [digit_char (year d div 1000)]"
  define T where "T = [digit_char (year d div 10 mod 10), digit_char (year d mod 10)]
                       @ pad2 (month d) @ pad2 (day d) @ ''.csv''"
  let ?s = "harvest_file_name slug k d"
  have s: "?s = P @ b # T"
    by (simp add: harvest_file_name_def strftime_Ymd_def str_nat_four[OF y] P_def T_def b_def)
  have lT: "length T = 10" by (simp add: T_def pad2_digits)
  have n: "length ?s = length P + 11" by (simp add: s lT)
  have lastT: "last ?s = CHR ''v''"
    by (simp add: s T_def)
  have b: "b \<noteq> CHR ''_''" by (simp add: b_def digit_char_props(3))
  have no: "take 14 (drop (length ?s - 24) ?s) \<noteq> ''forecast_wave_''" if "24 \<le> length ?s"
  proof
    assume e: "take 14 (drop (length ?s - 24) ?s) = ''forecast_wave_''"
    have "take 14 (drop (length ?s - 24) ?s) ! 13 = ?s ! (length ?s - 24 + 13)"
      using that by simp
    also have "length ?s - 24 + 13 = length P" using that n by simp
    also have "?s ! length P = b" by (simp add: s)
    finally have "take 14 (drop (length ?s - 24) ?s) ! 13 = b" .
    with e have "b = CHR ''_''" by simp
    with b show False by simp
  qed
  have nl: "\<not> (?s \<noteq> [] \<and> last ?s = CHR 0x0A)" using lastT by simp
  show ?thesis
    unfolding parse_issue_date_from_name_def Let_def
    using no nl by auto
qed

text \<open>
  Claim C5, as amended. For every issue date of the years 1000 to 9999, the harvest loop
  names its files \<^verbatim>\<open><slug>_<kind>_<tag>.csv\<close> with a tag of eight digits
  (\<^verbatim>\<open>%Y%m%d\<close>), and \<^verbatim>\<open>_parse_issue_date_from_name\<close> accepts none of these names. What
  the parser inverts is the six-digit tag of the names \<^verbatim>\<open>forecast_wave_YYMMDD.csv\<close> of
  its docstring: for every date of the years 2000 to 2099, parsing such a name, with or
  without a folder in front, gives the date back.
\<close>

theorem issue_date_tag_roundtrip:
  "(1000 \<le> year d \<and> year d \<le> 9999 \<longrightarrow>
      length (strftime_Ymd d) = 8
      \<and> parse_issue_date_from_name (harvest_file_name slug k d) = Inl ValueError)
   \<and> (valid_date d \<and> 2000 \<le> year d \<and> year d \<le> 2099 \<longrightarrow>
      length (tag_YYMMDD d) = 6
      \<and> list_all isdigit_char (tag_YYMMDD d)
      \<and> parse_issue_date_from_name (folder @ ''forecast_wave_'' @ tag_YYMMDD d @ ''.csv'') = Inr d)"
proof (intro conjI impI)
  assume a: "1000 \<le> year d \<and> year d \<le> 9999"
  then show "length (strftime_Ymd d) = 8" by (simp only: strftime_Ymd_length)
  from a show "parse_issue_date_from_name (harvest_file_name slug k d) = Inl ValueError"
    by (simp only: harvest_name_rejected)
next
  assume a: "valid_date d \<and> 2000 \<le> year d \<and> year d \<le> 2099"
  show "length (tag_YYMMDD d) = 6" by (rule tag_YYMMDD_shape(1))
  show "list_all isdigit_char (tag_YYMMDD d)" by (rule tag_YYMMDD_shape(2))
  show "parse_issue_date_from_name (folder @ ''forecast_wave_'' @ tag_YYMMDD d @ ''.csv'') = Inr d"
    using a by (simp only: parse_roundtrip)
qed

theorem issue_date_tag_roundtrip_witness:
  "valid_date \<lparr>year = 2025, month = 11, day = 10\<rparr>
   \<and> length (strftime_Ymd \<lparr>year = 2025, month = 11, day = 10\<rparr>) = 8
   \<and> parse_issue_date_from_name
       (harvest_file_name ''spot'' Surf \<lparr>year = 2025, month = 11, day = 10\<rparr>) = Inl ValueError
   \<and> tag_YYMMDD \<lparr>year = 2025, month = 11, day = 10\<rparr> = ''251110''
   \<and> parse_issue_date_from_name ''forecast_wave_251110.csv''
       = Inr \<lparr>year = 2025, month = 11, day = 10\<rparr>"
  using issue_date_tag_roundtrip
    [where d = "\<lparr>year = 2025, month = 11, day = 10\<rparr>" and folder = "[]"
       and slug = "''spot''" and k = Surf]
  by (simp add: valid_date_def days_in_month_def is_leap_def tag_YYMMDD_def pad2_def
        digit_char_def)

text \<open>
  Claim C5 as stated fails for the harvested files: the tag of the issue date 2025-01-01
  has eight digits, not six, and parsing the file's name does not give the date back.
\<close>

theorem harvest_tag_counterexample:
  "length (strftime_Ymd \<lparr>year = 2025, month = 1, day = 1\<rparr>) \<noteq> 6
   \<and> parse_issue_date_from_name (harvest_file_name ''spot'' Surf \<lparr>year = 2025, month = 1, day = 1\<rparr>)
       \<noteq> Inr \<lparr>year = 2025, month = 1, day = 1\<rparr>"
  by (simp add: strftime_Ymd_length harvest_name_rejected)

section \<open>Properties of the harvest loop and of the writers\<close>

subsection \<open>One series kind of one day\<close>

lemma harvest_series_api_calls:
  "api_calls (harvest_series a cur w k) = api_calls w @ [(k, cur)]"
  by (simp add: harvest_series_def write_dict_rows_def Let_def split: sum.splits)

lemma harvest_series_files:
  "files (harvest_series a cur w k) = series_file a (files w) (k, cur)"
  by (simp add: harvest_series_def series_file_def series_outcome_def series_path_def
        write_dict_rows_def Let_def split: sum.splits)

lemma harvest_series_stderr:
  "stderr (harvest_series a cur w k) = stderr w @ series_error_lines a (k, cur)"
  by (simp add: harvest_series_def series_error_lines_def series_outcome_def series_path_def
        write_dict_rows_def Let_def split: sum.splits)

subsection \<open>One day\<close>

lemma harvest_kinds_api_calls:
  "api_calls (foldl (harvest_series a cur) w ks) = api_calls w @ map (\<lambda>k. (k, cur)) ks"
  by (induction ks arbitrary: w) (simp_all add: harvest_series_api_calls)

lemma harvest_kinds_files:
  "files (foldl (harvest_series a cur) w ks) =
   foldl (series_file a) (files w) (map (\<lambda>k. (k, cur)) ks)"
  by (induction ks arbitrary: w) (simp_all add: harvest_series_files)

lemma harvest_kinds_stderr:
  "stderr (foldl (harvest_series a cur) w ks) =
   stderr w @ concat (map (series_error_lines a) (map (\<lambda>k. (k, cur)) ks))"
  by (induction ks arbitrary: w) (simp_all add: harvest_series_stderr)

lemma harvest_day_api_calls:
  "api_calls (harvest_day a cur w) =
   api_calls w @ map (\<lambda>k. (k, cur)) (series_kinds (subregion_id a))"
  by (simp add: harvest_day_def Let_def harvest_kinds_api_calls)

lemma harvest_day_files:
  "files (harvest_day a cur w) =
   foldl (series_file a) (files w) (map (\<lambda>k. (k, cur)) (series_kinds (subregion_id a)))"
  by (simp add: harvest_day_def Let_def harvest_kinds_files)

lemma harvest_day_stderr:
  "stderr (harvest_day a cur w) =
   stderr w @ concat (map (series_error_lines a)
                        (map (\<lambda>k. (k, cur)) (series_kinds (subregion_id a))))"
  by (simp add: harvest_day_def Let_def harvest_kinds_stderr)

subsection \<open>The days of the range\<close>

lemma harvest_loop_step:
  "cur \<le> end_day \<Longrightarrow> cur < date_max_ordinal \<Longrightarrow>
   harvest_loop a cur end_day w = harvest_loop a (cur + 1) end_day (harvest_day a cur w)"
  by (subst harvest_loop.simps) (simp add: Let_def)

lemma harvest_loop_last:
  "cur \<le> end_day \<Longrightarrow> date_max_ordinal \<le> cur \<Longrightarrow>
   harvest_loop a cur end_day w = (harvest_day a cur w, Some OverflowError)"
  by (subst harvest_loop.simps) (simp add: Let_def)

lemma harvest_loop_done:
  "\<not> cur \<le> end_day \<Longrightarrow> harvest_loop a cur end_day w = (w, None)"
  by (subst harvest_loop.simps) simp

lemma harvest_loop_days:
  "end_day \<le> date_max_ordinal \<Longrightarrow>
   harvest_loop a cur end_day w =
     (foldl (\<lambda>w d. harvest_day a d w) w [cur..end_day],
      if cur \<le> end_day \<and> end_day = date_max_ordinal then Some OverflowError else None)"
proof (induction a cur end_day w rule: harvest_loop.induct)
  case (1 a cur end_day w)
  show ?case
  proof (cases "cur \<le> end_day")
    case False
    then show ?thesis by (simp add: harvest_loop_done)
  next
    case True
    then have u: "[cur..end_day] = cur # [cur + 1..end_day]"
      by (simp add: upto_rec1)
    show ?thesis
    proof (cases "cur < date_max_ordinal")
      case False
      with True 1(2) have e: "cur = end_day" "end_day = date_max_ordinal" by simp_all
      have "harvest_loop a cur end_day w = (harvest_day a cur w, Some OverflowError)"
        using True False by (simp add: harvest_loop_last)
      then show ?thesis using e by simp
    next
      case less: True
      then have n: "\<not> date_max_ordinal < cur + 1" by simp
      have "harvest_loop a (cur + 1) end_day (harvest_day a cur w) =
          (foldl (\<lambda>w d. harvest_day a d w) (harvest_day a cur w) [cur + 1..end_day],
           if cur + 1 \<le> end_day \<and> end_day = date_max_ordinal then Some OverflowError else None)"
        using 1(1)[OF True refl n 1(2)] .
      moreover have "(cur + 1 \<le> end_day \<and> end_day = date_max_ordinal)
          = (cur \<le> end_day \<and> end_day = date_max_ordinal)"
        using True less by auto
      ultimately show ?thesis
        using True less by (simp add: harvest_loop_step u)
    qed
  qed
qed

lemma harvest_days_api_calls:
  "api_calls (foldl (\<lambda>w d. harvest_day a d w) w ds) =
   api_calls w @ concat (map (\<lambda>d. map (\<lambda>k. (k, d)) (series_kinds (subregion_id a))) ds)"
  by (induction ds arbitrary: w) (simp_all add: harvest_day_api_calls)

lemma harvest_days_files:
  "files (foldl (\<lambda>w d. harvest_day a d w) w ds) =
   foldl (series_file a) (files w)
     (concat (map (\<lambda>d. map (\<lambda>k. (k, d)) (series_kinds (subregion_id a))) ds))"
  by (induction ds arbitrary: w) (simp_all add: harvest_day_files)

lemma harvest_days_stderr:
  "stderr (foldl (\<lambda>w d. harvest_day a d w) w ds) =
   stderr w @ concat (map (series_error_lines a)
     (concat (map (\<lambda>d. map (\<lambda>k. (k, d)) (series_kinds (subregion_id a))) ds)))"
  by (induction ds arbitrary: w) (simp_all add: harvest_day_stderr)

text \<open>
  Claim C7, as amended. For every range of dates that ends before 9999-12-31 and
  whatever the requests return or raise, the loop returns normally, having handled every
  series kind of every day of the inclusive range, in order: it has issued the request of
  each, it has written the file of each whose payload flattened to rows, and it has
  printed one error line for each whose request or flattening raised, one warning for
  each that flattened to no rows, and nothing else on the error stream. A failure thus
  changes nothing for the series kinds and days after it. For a range that ends on
  9999-12-31 the same is done, and then the loop raises OverflowError.
\<close>

theorem harvest_runs_to_completion:
  assumes "end_day \<le> date_max_ordinal"
  shows "api_calls (fst (harvest_loop a start_day end_day w)) =
           api_calls w @ range_requests (subregion_id a) start_day end_day
       \<and> files (fst (harvest_loop a start_day end_day w)) =
           foldl (series_file a) (files w) (range_requests (subregion_id a) start_day end_day)
       \<and> stderr (fst (harvest_loop a start_day end_day w)) =
           stderr w @ concat (map (series_error_lines a)
                                (range_requests (subregion_id a) start_day end_day))
       \<and> snd (harvest_loop a start_day end_day w) =
           (if start_day \<le> end_day \<and> end_day = date_max_ordinal
            then Some OverflowError else None)"
  unfolding harvest_loop_days[OF assms] range_requests_def fst_conv snd_conv
  by (intro conjI harvest_days_api_calls harvest_days_files harvest_days_stderr refl)

theorem harvest_runs_to_completion_witness:
  "(2::int) \<le> date_max_ordinal
   \<and> api_calls (fst (harvest_loop
      \<lparr>api = (\<lambda>k d. if k = Surf then Inl HTTPError
                    else if k = Tides
                    then Inr (PDict [(''data'', PDict [(''tides'', PList [PDict
                           [(''timestamp'', PInt 1735689600), (''type'', PStr ''HIGH''),
                            (''height'', PFloat (3 / 2))]])])])
                    else Inr (PDict [])),
       civil = (\<lambda>n. \<lparr>year = 2025, month = 1, day = nat n\<rparr>),
       base_folder = ''forecasts/spot'', spot_slug = ''spot'', subregion_id = None\<rparr>
      1 2
      \<lparr>files = Map.empty, dirs = {}, stdout = [], stderr = [], api_calls = [], sleeps = []\<rparr>)) =
   [(Surf, 1), (Swells, 1), (Rating, 1), (Spectra, 1), (Sunlight, 1), (Wind, 1), (Tides, 1),
    (Surf, 2), (Swells, 2), (Rating, 2), (Spectra, 2), (Sunlight, 2), (Wind, 2), (Tides, 2)]
   \<and> map (files (fst (harvest_loop
      \<lparr>api = (\<lambda>k d. if k = Surf then Inl HTTPError
                    else if k = Tides
                    then Inr (PDict [(''data'', PDict [(''tides'', PList [PDict
                           [(''timestamp'', PInt 1735689600), (''type'', PStr ''HIGH''),
                            (''height'', PFloat (3 / 2))]])])])
                    else Inr (PDict [])),
       civil = (\<lambda>n. \<lparr>year = 2025, month = 1, day = nat n\<rparr>),
       base_folder = ''forecasts/spot'', spot_slug = ''spot'', subregion_id = None\<rparr>
      1 2
      \<lparr>files = Map.empty, dirs = {}, stdout = [], stderr = [], api_calls = [], sleeps = []\<rparr>)))
     [''forecasts/spot/spot_surf_20250101.csv'', ''forecasts/spot/spot_tides_20250101.csv'',
      ''forecasts/spot/spot_surf_20250102.csv'', ''forecasts/spot/spot_tides_20250102.csv''] =
   [None,
    Some \<lparr>fieldnames = [''timestamp'', ''type'', ''height''],
          csv_rows = [[(''timestamp'', PInt 1735689600), (''type'', PStr ''HIGH''),
                       (''height'', PFloat (3 / 2))]]\<rparr>,
    None,
    Some \<lparr>fieldnames = [''timestamp'', ''type'', ''height''],
          csv_rows = [[(''timestamp'', PInt 1735689600), (''type'', PStr ''HIGH''),
                       (''height'', PFloat (3 / 2))]]\<rparr>]
   \<and> stderr (fst (harvest_loop
      \<lparr>api = (\<lambda>k d. if k = Surf then Inl HTTPError
                    else if k = Tides
                    then Inr (PDict [(''data'', PDict [(''tides'', PList [PDict
                           [(''timestamp'', PInt 1735689600), (''type'', PStr ''HIGH''),
                            (''height'', PFloat (3 / 2))]])])])
                    else Inr (PDict [])),
       civil = (\<lambda>n. \<lparr>year = 2025, month = 1, day = nat n\<rparr>),
       base_folder = ''forecasts/spot'', spot_slug = ''spot'', subregion_id = None\<rparr>
      1 2
      \<lparr>files = Map.empty, dirs = {}, stdout = [], stderr = [], api_calls = [], sleeps = []\<rparr>)) =
   [Err_fetch_failed Surf ''2025-01-01'' HTTPError,
    Warn_no_rows ''forecasts/spot/spot_swells_20250101.csv'',
    Warn_no_rows ''forecasts/spot/spot_rating_20250101.csv'',
    Warn_no_rows ''forecasts/spot/spot_spectra_20250101.csv'',
    Warn_no_rows ''forecasts/spot/spot_sunlight_20250101.csv'',
    Warn_no_rows ''forecasts/spot/spot_wind_20250101.csv'',
    Err_fetch_failed Surf ''2025-01-02'' HTTPError,
    Warn_no_rows ''forecasts/spot/spot_swells_20250102.csv'',
    Warn_no_rows ''forecasts/spot/spot_rating_20250102.csv'',
    Warn_no_rows ''forecasts/spot/spot_spectra_20250102.csv'',
    Warn_no_rows ''forecasts/spot/spot_sunlight_20250102.csv'',
    Warn_no_rows ''forecasts/spot/spot_wind_20250102.csv'']
   \<and> snd (harvest_loop
      \<lparr>api = (\<lambda>k d. if k = Surf then Inl HTTPError
                    else if k = Tides
                    then Inr (PDict [(''data'', PDict [(''tides'', PList [PDict
                           [(''timestamp'', PInt 1735689600), (''type'', PStr ''HIGH''),
                            (''height'', PFloat (3 / 2))]])])])
                    else Inr (PDict [])),
       civil = (\<lambda>n. \<lparr>year = 2025, month = 1, day = nat n\<rparr>),
       base_folder = ''forecasts/spot'', spot_slug = ''spot'', subregion_id = None\<rparr>
      1 2
      \<lparr>files = Map.empty, dirs = {}, stdout = [], stderr = [], api_calls = [], sleeps = []\<rparr>) = None"
proof -
  define a where "a =
      \<lparr>api = (\<lambda>k (d::int). if k = Surf then Inl HTTPError
                    else if k = Tides
                    then Inr (PDict [(''data'', PDict [(''tides'', PList [PDict
                           [(''timestamp'', PInt 1735689600), (''type'', PStr ''HIGH''),
                            (''height'', PFloat (3 / 2))]])])])
                    else Inr (PDict [])),
       civil = (\<lambda>n. \<lparr>year = 2025, month = 1, day = nat n\<rparr>),
       base_folder = ''forecasts/spot'', spot_slug = ''spot'', subregion_id = None\<rparr>"
  define w where "w =
      \<lparr>files = Map.empty, dirs = {}, stdout = [], stderr = [], api_calls = [], sleeps = []\<rparr>"
  have b: "(2::int) \<le> date_max_ordinal" by (simp add: date_max_ordinal_def)
  have r: "range_requests (subregion_id a) 1 2 =
      [(Surf, 1), (Swells, 1), (Rating, 1), (Spectra, 1), (Sunlight, 1), (Wind, 1), (Tides, 1),
       (Surf, 2), (Swells, 2), (Rating, 2), (Spectra, 2), (Sunlight, 2), (Wind, 2), (Tides, 2)]"
    by (simp add: a_def range_requests_def series_kinds_def upto_rec1)
  have o: "series_outcome a (Surf, d) = Inl HTTPError"
      "series_outcome a (Swells, d) = Inr []"
      "series_outcome a (Rating, d) = Inr []"
      "series_outcome a (Spectra, d) = Inr []"
      "series_outcome a (Sunlight, d) = Inr []"
      "series_outcome a (Wind, d) = Inr []"
      "series_outcome a (Tides, d) =
         Inr [[(''timestamp'', PInt 1735689600), (''type'', PStr ''HIGH''),
               (''height'', PFloat (3 / 2))]]" for d
    by (simp_all add: a_def series_outcome_def SwellsCSV_flatten_def RatingCSV_flatten_def
          SpectraCSV_flatten_def SunlightCSV_flatten_def WindCSV_flatten_def
          TidesCSV_flatten_def TidesCSV_point_def flatten_simple_fields_def row_update_def
          first_list_in_data_def py_or_def py_or_else_def dict_lookup_def)
  have p: "series_path a (k, 1) = ''forecasts/spot/spot_'' @ kind_name k @ ''_20250101.csv''"
      "series_path a (k, 2) = ''forecasts/spot/spot_'' @ kind_name k @ ''_20250102.csv''" for k
    by (simp_all add: a_def series_path_def path_join_def harvest_file_name_def strftime_Ymd_def
          str_nat.simps pad2_def digit_char_def)
  have s: "strftime_Y_m_d (civil a 1) = ''2025-01-01''" "strftime_Y_m_d (civil a 2) = ''2025-01-02''"
    by (simp_all add: a_def strftime_Y_m_d_def str_nat.simps pad2_def digit_char_def)
  have c: "collect_fieldnames [[(''timestamp'', PInt 1735689600), (''type'', PStr ''HIGH''),
               (''height'', PFloat (3 / 2))]] = [''timestamp'', ''type'', ''height'']"
    by (simp add: collect_fieldnames_def)
  have "api_calls w = []" "files w = Map.empty" "stderr w = []"
    by (simp_all add: w_def)
  with harvest_runs_to_completion[OF b, of a 1 w] b
  show ?thesis
    unfolding a_def[symmetric] w_def[symmetric]
    by (simp add: r o p s c series_file_def series_error_lines_def date_max_ordinal_def)
qed

text \<open>
  Claim C7 as stated fails for the range that ends on the last date, 9999-12-31: the
  loop handles that day, pauses, and then \<^verbatim>\<open>cur += timedelta(days=1)\<close> raises
  OverflowError, which nothing catches.
\<close>

theorem harvest_last_date_counterexample:
  "api_calls (fst (harvest_loop
      \<lparr>api = (\<lambda>k d. Inr (PDict [])),
       civil = (\<lambda>n. \<lparr>year = 9999, month = 12, day = 31\<rparr>),
       base_folder = ''forecasts/spot'', spot_slug = ''spot'', subregion_id = None\<rparr>
      3652059 3652059
      \<lparr>files = Map.empty, dirs = {}, stdout = [], stderr = [], api_calls = [], sleeps = []\<rparr>)) =
   [(Surf, 3652059), (Swells, 3652059), (Rating, 3652059), (Spectra, 3652059),
    (Sunlight, 3652059), (Wind, 3652059), (Tides, 3652059)]
   \<and> snd (harvest_loop
      \<lparr>api = (\<lambda>k d. Inr (PDict [])),
       civil = (\<lambda>n. \<lparr>year = 9999, month = 12, day = 31\<rparr>),
       base_folder = ''forecasts/spot'', spot_slug = ''spot'', subregion_id = None\<rparr>
      3652059 3652059
      \<lparr>files = Map.empty, dirs = {}, stdout = [], stderr = [], api_calls = [], sleeps = []\<rparr>)
     = Some OverflowError"
  by (simp add: harvest_loop_last date_max_ordinal_def harvest_day_api_calls series_kinds_def)

subsection \<open>No rows\<close>

lemma write_dict_rows_empty:
  "write_dict_rows [] path w = w\<lparr>stderr := stderr w @ [Warn_no_rows path]\<rparr>"
  by (simp add: write_dict_rows_def)

lemma WaveCSV_write_dict_rows_empty:
  "WaveCSV_write_dict_rows [] path w = Inr (w\<lparr>stderr := stderr w @ [Warn_no_rows path]\<rparr>)"
  by (simp add: WaveCSV_write_dict_rows_def)

text \<open>
  Claim C10. Given no rows, either writer prints its warning and returns: no file is
  created or changed and no directory is made. So a series kind whose payload flattens
  to no rows leaves the files as they were; where there was no file for that kind and
  day, there is none afterwards.
\<close>

theorem empty_rows_write_nothing:
  "write_dict_rows [] path w = w\<lparr>stderr := stderr w @ [Warn_no_rows path]\<rparr>
   \<and> files (write_dict_rows [] path w) = files w
   \<and> dirs (write_dict_rows [] path w) = dirs w
   \<and> WaveCSV_write_dict_rows [] path w = Inr (w\<lparr>stderr := stderr w @ [Warn_no_rows path]\<rparr>)
   \<and> (\<exists>w'. WaveCSV_write_dict_rows [] path w = Inr w' \<and> files w' = files w \<and> dirs w' = dirs w)
   \<and> (and_then (api a k cur) (flatten_kind k) = Inr [] \<longrightarrow>
        files (harvest_series a cur w k) = files w
        \<and> dirs (harvest_series a cur w k) = dirs w)"
  by (simp add: write_dict_rows_empty WaveCSV_write_dict_rows_empty harvest_series_def Let_def)

theorem empty_rows_write_nothing_witness:
  "and_then (Inr (PDict [(''data'', PDict [])])) (flatten_kind Surf) = Inr []
   \<and> files (harvest_series
      \<lparr>api = (\<lambda>k d. Inr (PDict [(''data'', PDict [])])),
       civil = (\<lambda>n. \<lparr>year = 2025, month = 1, day = nat n\<rparr>),
       base_folder = ''forecasts/spot'', spot_slug = ''spot'', subregion_id = None\<rparr>
      1
      \<lparr>files = Map.empty, dirs = {}, stdout = [], stderr = [], api_calls = [], sleeps = []\<rparr>
      Surf) ''forecasts/spot/spot_surf_20250101.csv'' = None"
  using empty_rows_write_nothing
    [of "''forecasts/spot/spot_surf_20250101.csv''"
       "\<lparr>files = Map.empty, dirs = {}, stdout = [], stderr = [], api_calls = [], sleeps = []\<rparr>"
       "\<lparr>api = (\<lambda>k d. Inr (PDict [(''data'', PDict [])])),
       civil = (\<lambda>n. \<lparr>year = 2025, month = 1, day = nat n\<rparr>),
       base_folder = ''forecasts/spot'', spot_slug = ''spot'', subregion_id = None\<rparr>"
       Surf 1]
  by (simp add: SurfCSV_flatten_def py_or_def py_or_else_def dict_lookup_def
        first_list_in_data_def)

section \<open>Properties of the flatteners\<close>

lemma str_nat_small:
  "str_nat (Suc 0) = ''1''" "str_nat 1 = ''1''" "str_nat 2 = ''2''" "str_nat 3 = ''3''"
  "str_nat 4 = ''4''" "str_nat 5 = ''5''" "str_nat 6 = ''6''"
  by (simp_all add: str_nat.simps digit_char_def)

lemma enumerate_six:
  "List.enumerate 1 [a, b, c, d, e, f] = [(1, a), (2, b), (3, c), (4, d), (5, e), (6, f)]"
  by (simp add: enumerate_eq_zip upt_rec)

lemma take_six:
  assumes "6 < length xs"
  obtains a b c d e f rest where "xs = a # b # c # d # e # f # rest" "rest \<noteq> []"
proof -
  from assms obtain a x1 where 1: "xs = a # x1" "5 < length x1" by (cases xs) auto
  then obtain b x2 where 2: "x1 = b # x2" "4 < length x2" by (cases x1) auto
  then obtain c x3 where 3: "x2 = c # x3" "3 < length x3" by (cases x2) auto
  then obtain d x4 where 4: "x3 = d # x4" "2 < length x4" by (cases x3) auto
  then obtain e x5 where 5: "x4 = e # x5" "1 < length x5" by (cases x4) auto
  then obtain f x6 where 6: "x5 = f # x6" "0 < length x6" by (cases x5) auto
  show ?thesis using that[of a b c d e f x6] 1 2 3 4 5 6 by simp
qed

lemma WaveCSV_point_six:
  assumes sw: "map_of kvs ''swells'' = Some (PList (map PDict ds))"
    and n: "6 < length ds"
    and surf: "py_or (dict_lookup kvs ''surf'' PNone) (PDict []) = PDict surf"
  shows "WaveCSV_point (PDict kvs) =
    Inr [(''timestamp'', dict_lookup kvs ''timestamp'' PNone),
         (''surf_min'', dict_lookup surf ''min'' PNone),
         (''surf_max'', dict_lookup surf ''max'' PNone),
         (''swell1_height_m'', dict_lookup (ds ! 0) ''height'' PNone),
         (''swell1_period_s'', dict_lookup (ds ! 0) ''period'' PNone),
         (''swell1_direction_deg'', dict_lookup (ds ! 0) ''direction'' PNone),
         (''swell2_height_m'', dict_lookup (ds ! 1) ''height'' PNone),
         (''swell2_period_s'', dict_lookup (ds ! 1) ''period'' PNone),
         (''swell2_direction_deg'', dict_lookup (ds ! 1) ''direction'' PNone),
         (''swell3_height_m'', dict_lookup (ds ! 2) ''height'' PNone),
         (''swell3_period_s'', dict_lookup (ds ! 2) ''period'' PNone),
         (''swell3_direction_deg'', dict_lookup (ds ! 2) ''direction'' PNone),
         (''swell4_height_m'', dict_lookup (ds ! 3) ''height'' PNone),
         (''swell4_period_s'', dict_lookup (ds ! 3) ''period'' PNone),
         (''swell4_direction_deg'', dict_lookup (ds ! 3) ''direction'' PNone),
         (''swell5_height_m'', dict_lookup (ds ! 4) ''height'' PNone),
         (''swell5_period_s'', dict_lookup (ds ! 4) ''period'' PNone),
         (''swell5_direction_deg'', dict_lookup (ds ! 4) ''direction'' PNone),
         (''swell6_height_m'', dict_lookup (ds ! 5) ''height'' PNone),
         (''swell6_period_s'', dict_lookup (ds ! 5) ''period'' PNone),
         (''swell6_direction_deg'', dict_lookup (ds ! 5) ''direction'' PNone)]"
proof -
  from n obtain a b c d e f rest where ds: "ds = a # b # c # d # e # f # rest"
    by (rule take_six)
  have l: "dict_lookup kvs ''swells'' (PList []) = PList (map PDict ds)"
    by (simp add: dict_lookup_def sw)
  have t: "py_or (PList (map PDict ds)) (PList []) = PList (map PDict ds)"
    by (simp add: py_or_def ds)
  have s6: "take 6 (map PDict ds) = [PDict a, PDict b, PDict c, PDict d, PDict e, PDict f]"
    by (simp add: ds)
  have fe: "fold_each WaveCSV_swell
      (List.enumerate 1 [PDict a, PDict b, PDict c, PDict d, PDict e, PDict f]) r0 =
    Inr (foldl (\<lambda>r kv. row_set r (fst kv) (snd kv)) r0
         [(''swell1_height_m'', dict_lookup a ''height'' PNone),
          (''swell1_period_s'', dict_lookup a ''period'' PNone),
          (''swell1_direction_deg'', dict_lookup a ''direction'' PNone),
          (''swell2_height_m'', dict_lookup b ''height'' PNone),
          (''swell2_period_s'', dict_lookup b ''period'' PNone),
          (''swell2_direction_deg'', dict_lookup b ''direction'' PNone),
          (''swell3_height_m'', dict_lookup c ''height'' PNone),
          (''swell3_period_s'', dict_lookup c ''period'' PNone),
          (''swell3_direction_deg'', dict_lookup c ''direction'' PNone),
          (''swell4_height_m'', dict_lookup d ''height'' PNone),
          (''swell4_period_s'', dict_lookup d ''period'' PNone),
          (''swell4_direction_deg'', dict_lookup d ''direction'' PNone),
          (''swell5_height_m'', dict_lookup e ''height'' PNone),
          (''swell5_period_s'', dict_lookup e ''period'' PNone),
          (''swell5_direction_deg'', dict_lookup e ''direction'' PNone),
          (''swell6_height_m'', dict_lookup f ''height'' PNone),
          (''swell6_period_s'', dict_lookup f ''period'' PNone),
          (''swell6_direction_deg'', dict_lookup f ''direction'' PNone)])" for r0
    unfolding enumerate_six
    by (simp add: WaveCSV_swell_def str_nat_small)
  have nth: "ds ! 0 = a" "ds ! Suc 0 = b" "ds ! 1 = b" "ds ! 2 = c" "ds ! 3 = d" "ds ! 4 = e" "ds ! 5 = f"
    by (simp_all add: ds)
  have "WaveCSV_point (PDict kvs) =
      fold_each WaveCSV_swell
        (List.enumerate 1 [PDict a, PDict b, PDict c, PDict d, PDict e, PDict f])
        [(''timestamp'', dict_lookup kvs ''timestamp'' PNone),
         (''surf_min'', dict_lookup surf ''min'' PNone),
         (''surf_max'', dict_lookup surf ''max'' PNone)]"
    unfolding WaveCSV_point_def
    by (simp add: l t s6 surf del: enumerate_simps)
  also note fe
  finally show ?thesis
    by (simp add: nth)
qed

lemma row_set_keys: "fst ` set (row_set r k v) = insert k (fst ` set r)"
proof (induction r)
  case Nil
  then show ?case by simp
next
  case (Cons a r)
  obtain k' v' where a: "a = (k', v')" by (cases a)
  show ?case
  proof (cases "k' = k")
    case True
    then show ?thesis by (simp add: a)
  next
    case False
    then show ?thesis using Cons.IH by (simp add: a insert_commute)
  qed
qed

lemma row_set_lookup: "map_of (row_set r k v) k' = (if k' = k then Some v else map_of r k')"
  by (induction r) auto

lemma row_update_other:
  "k \<notin> fst ` set items \<Longrightarrow> map_of (row_update r items) k = map_of r k"
  unfolding row_update_def
  by (induction items arbitrary: r) (auto simp: row_set_lookup)

lemma simple_fields_keys:
  "fst ` set (foldl (\<lambda>out kv. if is_simple (snd kv) then row_set out (p @ fst kv) (snd kv)
                                else out) acc kvs)
   \<subseteq> fst ` set acc \<union> (\<lambda>k. p @ k) ` fst ` set kvs"
proof (induction kvs arbitrary: acc)
  case Nil
  then show ?case by simp
next
  case (Cons kv kvs)
  show ?case
    using Cons.IH[of "if is_simple (snd kv) then row_set acc (p @ fst kv) (snd kv) else acc"]
    by (auto simp: row_set_keys split: if_splits)
qed

lemma flatten_simple_fields_dict:
  "\<exists>fs. flatten_simple_fields (PDict d) p = Inr fs \<and> fst ` set fs \<subseteq> (\<lambda>k. p @ k) ` fst ` set d"
  using simple_fields_keys[of p "[]" d] by (simp add: flatten_simple_fields_def)

lemma SwellsCSV_component_index:
  "\<exists>r. SwellsCSV_component ts (i, PDict d) = Inr r
       \<and> map_of r ''component_index'' = Some (PInt (int i))"
proof -
  obtain fs where fs: "flatten_simple_fields (PDict d) ''swell_'' = Inr fs"
    "fst ` set fs \<subseteq> (\<lambda>k. ''swell_'' @ k) ` fst ` set d"
    using flatten_simple_fields_dict by blast
  have "''component_index'' \<notin> fst ` set fs" using fs(2) by auto
  then show ?thesis
    by (simp add: SwellsCSV_component_def fs(1) row_update_other)
qed

lemma for_each_all:
  "(\<And>x. x \<in> set xs \<Longrightarrow> \<exists>y. f x = Inr y \<and> P x y) \<Longrightarrow>
   \<exists>ys. for_each f xs = Inr ys \<and> list_all2 P xs ys"
proof (induction xs)
  case Nil
  then show ?case by simp
next
  case (Cons x xs)
  from Cons.prems obtain y where y: "f x = Inr y" "P x y" by auto
  from Cons obtain ys where ys: "for_each f xs = Inr ys" "list_all2 P xs ys" by auto
  show ?case using y ys by simp
qed

lemma SwellsCSV_point_all:
  assumes "map_of kvs ''swells'' = Some (PList (map PDict ds))"
  shows "\<exists>rows. SwellsCSV_point (PDict kvs) = Inr rows
      \<and> map (\<lambda>r. map_of r ''component_index'') rows =
          map (\<lambda>i. Some (PInt (int i))) [1..<Suc (length ds)]"
proof -
  let ?ts = "dict_lookup kvs ''timestamp'' PNone"
  let ?xs = "List.enumerate 1 (map PDict ds)"
  have comps: "(case py_or (PList (map PDict ds)) (PList []) of PList xs \<Rightarrow> xs | _ \<Rightarrow> [])
      = map PDict ds"
    by (cases ds) (simp_all add: py_or_def)
  have p: "SwellsCSV_point (PDict kvs) = for_each (SwellsCSV_component ?ts) ?xs"
    using assms comps by (simp add: SwellsCSV_point_def dict_lookup_def Let_def)
  have "\<exists>ys. for_each (SwellsCSV_component ?ts) ?xs = Inr ys
      \<and> list_all2 (\<lambda>x r. map_of r ''component_index'' = Some (PInt (int (fst x)))) ?xs ys"
  proof (rule for_each_all)
    fix x assume x: "x \<in> set ?xs"
    obtain i c where ic: "x = (i, c)" by (cases x)
    from x ic have "c = map PDict ds ! (i - 1)" "i - 1 < length ds"
      by (auto simp: in_set_enumerate_eq)
    then have "c = PDict (ds ! (i - 1))" by simp
    with ic have "x = (i, PDict (ds ! (i - 1)))" by simp
    then obtain d where "x = (i, PDict d)" by blast
    then show "\<exists>y. SwellsCSV_component ?ts x = Inr y
        \<and> map_of y ''component_index'' = Some (PInt (int (fst x)))"
      using SwellsCSV_component_index[of ?ts i d] by simp
  qed
  then obtain ys where ys: "for_each (SwellsCSV_component ?ts) ?xs = Inr ys"
    "list_all2 (\<lambda>x r. map_of r ''component_index'' = Some (PInt (int (fst x)))) ?xs ys"
    by blast
  from ys(2) have "map (\<lambda>r. map_of r ''component_index'') ys =
      map (\<lambda>x. Some (PInt (int (fst x)))) ?xs"
    by (induction rule: list_all2_induct) simp_all
  also have "\<dots> = map (\<lambda>i. Some (PInt (int i))) (map fst ?xs)"
    by (simp only: map_map comp_def)
  also have "map fst ?xs = [1..<Suc (length ds)]"
    by (simp add: enumerate_eq_zip del: upt_Suc)
  finally have "map (\<lambda>r. map_of r ''component_index'') ys =
      map (\<lambda>i. Some (PInt (int i))) [1..<Suc (length ds)]" .
  moreover have "SwellsCSV_point (PDict kvs) = Inr ys" by (simp only: p ys(1))
  ultimately show ?thesis by (intro exI[of _ ys] conjI)
qed

lemma WaveCSV_flatten_single:
  "WaveCSV_flatten (PDict [(''data'', PDict [(''wave'', PList [p])])]) =
   and_then (WaveCSV_point p) (\<lambda>r. Inr [r])"
  by (simp add: WaveCSV_flatten_def py_or_def py_or_else_def dict_lookup_def)

lemma SwellsCSV_flatten_single:
  "SwellsCSV_flatten (PDict [(''data'', PDict [(''swells'', PList [p])])]) = SwellsCSV_point p"
  by (cases "SwellsCSV_point p")
     (simp_all add: SwellsCSV_flatten_def py_or_def py_or_else_def dict_lookup_def)

text \<open>
  Claim C4, as amended. For a forecast point whose \<^verbatim>\<open>swells\<close> list holds \<open>N > 6\<close>
  components, \<^verbatim>\<open>WaveCSV.flatten\<close> emits the fields of exactly the first six, numbered
  \<open>swell1\<close> to \<open>swell6\<close>, after \<^verbatim>\<open>timestamp\<close>, \<^verbatim>\<open>surf_min\<close> and \<^verbatim>\<open>surf_max\<close>,
  and nothing of the others. \<^verbatim>\<open>SwellsCSV.flatten\<close> does not truncate: it emits one row
  per component, with \<^verbatim>\<open>component_index\<close> running from 1 to \<open>N\<close>.
\<close>

theorem swell_components_first_six:
  assumes "map_of kvs ''swells'' = Some (PList (map PDict ds))"
    and "6 < length ds"
    and "py_or (dict_lookup kvs ''surf'' PNone) (PDict []) = PDict surf"
  shows "WaveCSV_flatten (PDict [(''data'', PDict [(''wave'', PList [PDict kvs])])]) =
    Inr [[(''timestamp'', dict_lookup kvs ''timestamp'' PNone),
         (''surf_min'', dict_lookup surf ''min'' PNone),
         (''surf_max'', dict_lookup surf ''max'' PNone),
         (''swell1_height_m'', dict_lookup (ds ! 0) ''height'' PNone),
         (''swell1_period_s'', dict_lookup (ds ! 0) ''period'' PNone),
         (''swell1_direction_deg'', dict_lookup (ds ! 0) ''direction'' PNone),
         (''swell2_height_m'', dict_lookup (ds ! 1) ''height'' PNone),
         (''swell2_period_s'', dict_lookup (ds ! 1) ''period'' PNone),
         (''swell2_direction_deg'', dict_lookup (ds ! 1) ''direction'' PNone),
         (''swell3_height_m'', dict_lookup (ds ! 2) ''height'' PNone),
         (''swell3_period_s'', dict_lookup (ds ! 2) ''period'' PNone),
         (''swell3_direction_deg'', dict_lookup (ds ! 2) ''direction'' PNone),
         (''swell4_height_m'', dict_lookup (ds ! 3) ''height'' PNone),
         (''swell4_period_s'', dict_lookup (ds ! 3) ''period'' PNone),
         (''swell4_direction_deg'', dict_lookup (ds ! 3) ''direction'' PNone),
         (''swell5_height_m'', dict_lookup (ds ! 4) ''height'' PNone),
         (''swell5_period_s'', dict_lookup (ds ! 4) ''period'' PNone),
         (''swell5_direction_deg'', dict_lookup (ds ! 4) ''direction'' PNone),
         (''swell6_height_m'', dict_lookup (ds ! 5) ''height'' PNone),
         (''swell6_period_s'', dict_lookup (ds ! 5) ''period'' PNone),
         (''swell6_direction_deg'', dict_lookup (ds ! 5) ''direction'' PNone)]]
   \<and> (\<exists>rows. SwellsCSV_flatten (PDict [(''data'', PDict [(''swells'', PList [PDict kvs])])])
          = Inr rows
        \<and> map (\<lambda>r. map_of r ''component_index'') rows =
            map (\<lambda>i. Some (PInt (int i))) [1..<Suc (length ds)])"
proof
  show "WaveCSV_flatten (PDict [(''data'', PDict [(''wave'', PList [PDict kvs])])]) =
    Inr [[(''timestamp'', dict_lookup kvs ''timestamp'' PNone),
         (''surf_min'', dict_lookup surf ''min'' PNone),
         (''surf_max'', dict_lookup surf ''max'' PNone),
         (''swell1_height_m'', dict_lookup (ds ! 0) ''height'' PNone),
         (''swell1_period_s'', dict_lookup (ds ! 0) ''period'' PNone),
         (''swell1_direction_deg'', dict_lookup (ds ! 0) ''direction'' PNone),
         (''swell2_height_m'', dict_lookup (ds ! 1) ''height'' PNone),
         (''swell2_period_s'', dict_lookup (ds ! 1) ''period'' PNone),
         (''swell2_direction_deg'', dict_lookup (ds ! 1) ''direction'' PNone),
         (''swell3_height_m'', dict_lookup (ds ! 2) ''height'' PNone),
         (''swell3_period_s'', dict_lookup (ds ! 2) ''period'' PNone),
         (''swell3_direction_deg'', dict_lookup (ds ! 2) ''direction'' PNone),
         (''swell4_height_m'', dict_lookup (ds ! 3) ''height'' PNone),
         (''swell4_period_s'', dict_lookup (ds ! 3) ''period'' PNone),
         (''swell4_direction_deg'', dict_lookup (ds ! 3) ''direction'' PNone),
         (''swell5_height_m'', dict_lookup (ds ! 4) ''height'' PNone),
         (''swell5_period_s'', dict_lookup (ds ! 4) ''period'' PNone),
         (''swell5_direction_deg'', dict_lookup (ds ! 4) ''direction'' PNone),
         (''swell6_height_m'', dict_lookup (ds ! 5) ''height'' PNone),
         (''swell6_period_s'', dict_lookup (ds ! 5) ''period'' PNone),
         (''swell6_direction_deg'', dict_lookup (ds ! 5) ''direction'' PNone)]]"
    by (simp only: WaveCSV_flatten_single WaveCSV_point_six[OF assms] and_then.simps)
  show "\<exists>rows. SwellsCSV_flatten (PDict [(''data'', PDict [(''swells'', PList [PDict kvs])])])
          = Inr rows
        \<and> map (\<lambda>r. map_of r ''component_index'') rows =
            map (\<lambda>i. Some (PInt (int i))) [1..<Suc (length ds)]"
    by (simp only: SwellsCSV_flatten_single SwellsCSV_point_all[OF assms(1)])
qed

theorem swell_components_first_six_witness:
  "6 < length [[(''height'', PInt 1)], [(''height'', PInt 2)], [(''height'', PInt 3)],
               [(''height'', PInt 4)], [(''height'', PInt 5)], [(''height'', PInt 6)],
               [(''height'', PInt 7)]]
   \<and> WaveCSV_flatten (PDict [(''data'', PDict [(''wave'', PList [PDict
        [(''timestamp'', PInt 1700000000),
         (''swells'', PList [PDict [(''height'', PInt 1)], PDict [(''height'', PInt 2)],
                             PDict [(''height'', PInt 3)], PDict [(''height'', PInt 4)],
                             PDict [(''height'', PInt 5)], PDict [(''height'', PInt 6)],
                             PDict [(''height'', PInt 7)]])]])])]) =
    Inr [[(''timestamp'', PInt 1700000000), (''surf_min'', PNone), (''surf_max'', PNone),
         (''swell1_height_m'', PInt 1), (''swell1_period_s'', PNone), (''swell1_direction_deg'', PNone),
         (''swell2_height_m'', PInt 2), (''swell2_period_s'', PNone), (''swell2_direction_deg'', PNone),
         (''swell3_height_m'', PInt 3), (''swell3_period_s'', PNone), (''swell3_direction_deg'', PNone),
         (''swell4_height_m'', PInt 4), (''swell4_period_s'', PNone), (''swell4_direction_deg'', PNone),
         (''swell5_height_m'', PInt 5), (''swell5_period_s'', PNone), (''swell5_direction_deg'', PNone),
         (''swell6_height_m'', PInt 6), (''swell6_period_s'', PNone), (''swell6_direction_deg'', PNone)]]"
  using swell_components_first_six[of "[(''timestamp'', PInt 1700000000),
         (''swells'', PList [PDict [(''height'', PInt 1)], PDict [(''height'', PInt 2)],
                             PDict [(''height'', PInt 3)], PDict [(''height'', PInt 4)],
                             PDict [(''height'', PInt 5)], PDict [(''height'', PInt 6)],
                             PDict [(''height'', PInt 7)]])]"
        "[[(''height'', PInt 1)], [(''height'', PInt 2)], [(''height'', PInt 3)],
               [(''height'', PInt 4)], [(''height'', PInt 5)], [(''height'', PInt 6)],
               [(''height'', PInt 7)]]" "[]"]
  by (simp add: dict_lookup_def py_or_def)

text \<open>
  Claim C4 as stated fails for \<^verbatim>\<open>SwellsCSV.flatten\<close>: of seven components it emits
  seven rows, the seventh with \<^verbatim>\<open>component_index\<close> 7.
\<close>

theorem swells_rows_not_truncated_counterexample:
  "SwellsCSV_flatten (PDict [(''data'', PDict [(''swells'', PList [PDict
        [(''timestamp'', PInt 1700000000),
         (''swells'', PList [PDict [(''height'', PInt 1)], PDict [(''height'', PInt 2)],
                             PDict [(''height'', PInt 3)], PDict [(''height'', PInt 4)],
                             PDict [(''height'', PInt 5)], PDict [(''height'', PInt 6)],
                             PDict [(''height'', PInt 7)]])]])])]) =
   Inr [[(''timestamp'', PInt 1700000000), (''component_index'', PInt 1), (''swell_height'', PInt 1)],
        [(''timestamp'', PInt 1700000000), (''component_index'', PInt 2), (''swell_height'', PInt 2)],
        [(''timestamp'', PInt 1700000000), (''component_index'', PInt 3), (''swell_height'', PInt 3)],
        [(''timestamp'', PInt 1700000000), (''component_index'', PInt 4), (''swell_height'', PInt 4)],
        [(''timestamp'', PInt 1700000000), (''component_index'', PInt 5), (''swell_height'', PInt 5)],
        [(''timestamp'', PInt 1700000000), (''component_index'', PInt 6), (''swell_height'', PInt 6)],
        [(''timestamp'', PInt 1700000000), (''component_index'', PInt 7), (''swell_height'', PInt 7)]]"
  by code_simp

text \<open>
  Claim C6, as amended. The payload whose series holds the single point
  \<^verbatim>\<open>{timestamp: 1700000000, surf: {min: 2.1, max: 3.4}}\<close> flattens to exactly one row.
  Under \<^verbatim>\<open>WaveCSV.flatten\<close> its fields are exactly \<^verbatim>\<open>timestamp\<close>, \<^verbatim>\<open>surf_min\<close> and
  \<^verbatim>\<open>surf_max\<close>; under \<^verbatim>\<open>SurfCSV.flatten\<close> the row has a fourth field,
  \<^verbatim>\<open>surf_humanRelation\<close>, which is null here.
\<close>

theorem surf_block_single_row:
  "WaveCSV_flatten (PDict [(''data'', PDict [(''wave'',
     PList [PDict [(''timestamp'', PInt 1700000000),
                   (''surf'', PDict [(''min'', PFloat (21 / 10)), (''max'', PFloat (34 / 10))])]])])]) =
   Inr [[(''timestamp'', PInt 1700000000), (''surf_min'', PFloat (21 / 10)),
         (''surf_max'', PFloat (34 / 10))]]
   \<and> SurfCSV_flatten (PDict [(''data'', PDict [(''surf'',
     PList [PDict [(''timestamp'', PInt 1700000000),
                   (''surf'', PDict [(''min'', PFloat (21 / 10)), (''max'', PFloat (34 / 10))])]])])]) =
   Inr [[(''timestamp'', PInt 1700000000), (''surf_min'', PFloat (21 / 10)),
         (''surf_max'', PFloat (34 / 10)), (''surf_humanRelation'', PNone)]]"
  by code_simp

text \<open>
  Claim C6 as stated fails for \<^verbatim>\<open>SurfCSV.flatten\<close>: its row is not the row of three
  fields.
\<close>

theorem surf_block_extra_field_counterexample:
  "SurfCSV_flatten (PDict [(''data'', PDict [(''surf'',
     PList [PDict [(''timestamp'', PInt 1700000000),
                   (''surf'', PDict [(''min'', PFloat (21 / 10)), (''max'', PFloat (34 / 10))])]])])]) \<noteq>
   Inr [[(''timestamp'', PInt 1700000000), (''surf_min'', PFloat (21 / 10)),
         (''surf_max'', PFloat (34 / 10))]]"
  by code_simp

text \<open>
  Claim C3 fails on the code: \<^verbatim>\<open>SurfCSV.flatten\<close> raises on a series that holds a null
  point, on a null \<^verbatim>\<open>data\<close> block and on a series that is a number, and even
  \<^verbatim>\<open>SpectraCSV.flatten\<close>, which guards every level below the payload, raises on a
  payload that is a non-empty list.
\<close>

theorem surf_flatten_raises_on_malformed:
  "SurfCSV_flatten (PDict [(''data'', PDict [(''surf'', PList [PNone])])]) = Inl AttributeError
   \<and> SurfCSV_flatten (PDict [(''data'', PNone)]) = Inl AttributeError
   \<and> SurfCSV_flatten (PDict [(''data'', PDict [(''surf'', PInt 5)])]) = Inl TypeError
   \<and> SpectraCSV_flatten (PList [PInt 1]) = Inl AttributeError"
  by code_simp

section \<open>Payloads without a series list; the guarded flattener\<close>

lemma lookup_default:
  "\<not> truthy (dict_lookup d k PNone) \<Longrightarrow> \<not> truthy (dict_lookup d k (PList []))"
  by (simp add: dict_lookup_def split: option.splits)

lemma first_list_none:
  "filter isinstance_list (map snd d) = [] \<Longrightarrow> first_list_in_data (PDict d) = Inr (PList [])"
  by (simp add: first_list_in_data_def)

text \<open>
  A payload without the series list flattens to no rows, under each of the eight
  flatteners of surfline\_client.py: when the \<^verbatim>\<open>data\<close> object holds no series list for
  the kind, when the payload has no \<^verbatim>\<open>data\<close> entry, and when the payload is null.
\<close>

theorem flatten_without_series_is_empty:
  "(lacks_series k d \<longrightarrow> flatten_kind k (PDict [(''data'', PDict d)]) = Inr [])
   \<and> (map_of kvs ''data'' = None \<longrightarrow> flatten_kind k (PDict kvs) = Inr [])
   \<and> flatten_kind k PNone = Inr []"
proof (intro conjI impI)
  assume a: "lacks_series k d"
  then have f: "first_list_in_data (PDict d) = Inr (PList [])"
    by (simp add: lacks_series_def first_list_none)
  show "flatten_kind k (PDict [(''data'', PDict d)]) = Inr []"
    using a f
    by (cases k)
       (simp_all add: lacks_series_def SurfCSV_flatten_def SwellsCSV_flatten_def
          RatingCSV_flatten_def SpectraCSV_flatten_def SunlightCSV_flatten_def
          WindCSV_flatten_def TidesCSV_flatten_def RegionConditionsCSV_flatten_def
          py_or_def py_or_else_def lookup_default
          dict_lookup_def[of "[(''data'', PDict d)]"])
next
  assume a: "map_of kvs ''data'' = None"
  have d: "py_get (py_or (PDict kvs) (PDict [])) ''data'' (PDict []) = Inr (PDict [])"
    using a by (simp add: py_or_def dict_lookup_def)
  show "flatten_kind k (PDict kvs) = Inr []"
    by (cases k)
       (simp_all add: a SurfCSV_flatten_def SwellsCSV_flatten_def
          RatingCSV_flatten_def SpectraCSV_flatten_def SunlightCSV_flatten_def
          WindCSV_flatten_def TidesCSV_flatten_def RegionConditionsCSV_flatten_def
          py_or_def py_or_else_def dict_lookup_def first_list_in_data_def)
next
  show "flatten_kind k PNone = Inr []"
    by (cases k)
       (simp_all add: SurfCSV_flatten_def SwellsCSV_flatten_def
          RatingCSV_flatten_def SpectraCSV_flatten_def SunlightCSV_flatten_def
          WindCSV_flatten_def TidesCSV_flatten_def RegionConditionsCSV_flatten_def
          py_or_def py_or_else_def dict_lookup_def first_list_in_data_def)
qed

theorem flatten_without_series_is_empty_witness:
  "lacks_series Wind [(''units'', PStr ''KTS''), (''wind'', PNone)]
   \<and> flatten_kind Wind (PDict [(''data'', PDict [(''units'', PStr ''KTS''), (''wind'', PNone)])]) = Inr []
   \<and> flatten_kind Wind (PDict [(''associated'', PDict [])]) = Inr []"
  using flatten_without_series_is_empty[of Wind "[(''units'', PStr ''KTS''), (''wind'', PNone)]" "[(''associated'', PDict [])]"]
  by (simp add: lacks_series_def dict_lookup_def)

lemma for_each_total:
  assumes "\<And>x. \<exists>y. f x = Inr y"
  shows "\<exists>ys. for_each f xs = Inr ys"
  using for_each_all[of xs f "\<lambda>x y. True"] assms by blast

lemma flatten_simple_fields_total: "\<exists>fs. flatten_simple_fields (PDict d) p = Inr fs"
  by (simp add: flatten_simple_fields_def)

lemma first_list_in_data_total: "\<exists>v. first_list_in_data (PDict d) = Inr v"
  by (simp add: first_list_in_data_def split: list.splits)

lemma SpectraCSV_bin_total: "\<exists>rows. SpectraCSV_bin ts c = Inr rows"
proof (cases "snd c")
  case (PDict d)
  obtain fs where "flatten_simple_fields (PDict d) ''bin_'' = Inr fs"
    using flatten_simple_fields_total by blast
  with PDict show ?thesis by (simp add: SpectraCSV_bin_def)
qed (simp_all add: SpectraCSV_bin_def)

lemma SpectraCSV_bins_total:
  "\<exists>rows. (case py_or b (PList []) of
       PList bins \<Rightarrow> and_then (for_each (SpectraCSV_bin ts) (List.enumerate 1 bins))
                        (\<lambda>rows. Inr (concat rows))
     | _ \<Rightarrow> Inr []) = Inr rows"
proof (cases "py_or b (PList [])")
  case (PList bins)
  obtain rows where "for_each (SpectraCSV_bin ts) (List.enumerate 1 bins) = Inr rows"
    using for_each_total[of "SpectraCSV_bin ts"] SpectraCSV_bin_total by blast
  with PList show ?thesis by simp
qed simp_all

lemma SpectraCSV_point_total: "\<exists>rows. SpectraCSV_point p = Inr rows"
proof (cases p)
  case (PDict kvs)
  show ?thesis
  proof (cases "truthy (dict_lookup kvs ''bins'' PNone)")
    case True
    then show ?thesis
      using SpectraCSV_bins_total[where b="dict_lookup kvs ''bins'' PNone"]
      by (simp add: PDict SpectraCSV_point_def py_or_else_def)
  next
    case False
    then show ?thesis
      using SpectraCSV_bins_total[where b="dict_lookup kvs ''data'' PNone"]
      by (simp add: PDict SpectraCSV_point_def py_or_else_def)
  qed
qed (simp_all add: SpectraCSV_point_def)

text \<open>
  \<^verbatim>\<open>SpectraCSV.flatten\<close> raises on no payload that is an object or null, whatever the
  object holds: each level below the payload is guarded.
\<close>

theorem SpectraCSV_flatten_never_raises:
  "(\<exists>rows. SpectraCSV_flatten (PDict kvs) = Inr rows) \<and> SpectraCSV_flatten PNone = Inr []"
proof
  define data where "data = dict_lookup kvs ''data'' (PDict [])"
  have g: "py_get (py_or (PDict kvs) (PDict [])) ''data'' (PDict []) = Inr data"
    by (simp add: py_or_def data_def dict_lookup_def)
  show "\<exists>rows. SpectraCSV_flatten (PDict kvs) = Inr rows"
  proof (cases data)
    case (PDict d)
    obtain series where s: "py_or_else (dict_lookup d ''spectra'' PNone) (first_list_in_data (PDict d))
        = Inr series"
      using first_list_in_data_total[of d]
      by (cases "truthy (dict_lookup d ''spectra'' PNone)") (auto simp: py_or_else_def)
    have f: "SpectraCSV_flatten (PDict kvs) =
        (case series of
           PList points \<Rightarrow> and_then (for_each SpectraCSV_point points) (\<lambda>rows. Inr (concat rows))
         | _ \<Rightarrow> Inr [])"
      by (simp add: SpectraCSV_flatten_def g PDict s)
    show ?thesis
    proof (cases series)
      case (PList points)
      obtain rows where "for_each SpectraCSV_point points = Inr rows"
        using for_each_total[of SpectraCSV_point] SpectraCSV_point_total by blast
      with f PList show ?thesis by simp
    qed (simp_all add: f)
  qed (simp_all add: SpectraCSV_flatten_def g)
  show "SpectraCSV_flatten PNone = Inr []"
    by (simp add: SpectraCSV_flatten_def py_or_def dict_lookup_def first_list_in_data_def
          py_or_else_def)
qed

end
